theory Spec2Isabelle
  imports Complex_Main
begin

section \<open>Numbers, strings and parseInt\<close>

text \<open>
  A JavaScript \<^verbatim>\<open>number\<close> that the program handles is a rating: a JSON number of a
  payload, or an integer read by \<^verbatim>\<open>parseInt\<close>. Both are finite, and the program only
  compares them, divides by ten and rounds, so a number is a rational here; \<^verbatim>\<open>NaN\<close>
  is the value \<open>None\<close> where it can arise (the result of \<^verbatim>\<open>parseInt\<close>). The model
  agrees with IEEE doubles on integers below \<open>2 ^ 53\<close>, which covers every rating scale.
\<close>

type_synonym number = rat

definition is_space :: "char \<Rightarrow> bool" where
  "is_space c \<longleftrightarrow> (of_char c :: nat) \<in> {32, 9, 10, 11, 12, 13}"

definition is_digit :: "char \<Rightarrow> bool" where
  "is_digit c \<longleftrightarrow> 48 \<le> (of_char c :: nat) \<and> (of_char c :: nat) \<le> 57"

definition trim :: "string \<Rightarrow> string" where
  "trim s = rev (dropWhile is_space (rev (dropWhile is_space s)))"

definition digits_value :: "string \<Rightarrow> nat" where
  "digits_value ds = foldl (\<lambda>acc c. 10 * acc + (of_char c - 48)) 0 ds"

text \<open>
  \<^verbatim>\<open>parseInt(s, 10)\<close>: leading white space is skipped, one sign is read, then the
  longest run of decimal digits; with no digit the result is \<^verbatim>\<open>NaN\<close>. Whatever
  follows the digits is ignored.
\<close>

definition parseInt :: "string \<Rightarrow> number option" where
  "parseInt s =
     (let s1 = dropWhile is_space s;
          neg = (case s1 of [] \<Rightarrow> False | c # _ \<Rightarrow> c = CHR ''-'');
          s2 = (case s1 of [] \<Rightarrow> []
                | c # r \<Rightarrow> if c = CHR ''-'' \<or> c = CHR ''+'' then r else s1);
          ds = takeWhile is_digit s2
      in if ds = [] then None
         else Some (if neg then - of_nat (digits_value ds) else of_nat (digits_value ds)))"

text \<open>\<^verbatim>\<open>Math.round\<close>: the nearest integer, a tie going up.\<close>

definition Math_round :: "number \<Rightarrow> number" where
  "Math_round x = of_int \<lfloor>x + 1 / 2\<rfloor>"

section \<open>Errors, log entries and effects\<close>

datatype js_error =
    AssertError
  | PlexFetchError
  | PlexResponseError
  | Error string
  | SyntaxError
  | TypeError
  | ProcessError

datatype level = Trace | Debug | Info | Warn | Err | Fatal

datatype endpoint = LIBRARY_SECTION_GET_ALL | METADATA_GET_CHILDREN | ENTITY_RATING_UPDATE

section \<open>Payloads and their schemas\<close>

text \<open>
  A value as \<^verbatim>\<open>JSON.parse\<close> gives it, and a request object written in the code. \<open>JObj\<close>
  lists the own properties of an object, each key once.
\<close>

datatype json =
    JNull
  | JBool bool
  | JNum number
  | JStr string
  | JArr "json list"
  | JObj "(string \<times> json) list"

text \<open>
  What the program does to the outside, in the order it does it: a logger call (level and
  message, and the error object when one is passed), a request sent by \<^verbatim>\<open>fetch\<close> (endpoint and URL parameters), a script handed
  to \<^verbatim>\<open>runAppleScript\<close> (track name and artist name, the two names the script
  interpolates), a call of \<^verbatim>\<open>plexClient.setTrackRating\<close> (track key and rating), a
  \<^verbatim>\<open>sleep\<close> (milliseconds).
\<close>

datatype event =
    Log level string
  | LogError level js_error string
  | Fetch endpoint json
  | RunAppleScript string string
  | SetTrackRating string number
  | Sleep nat

type_synonym 'a io = "(js_error + 'a) \<times> event list"

text \<open>\<^verbatim>\<open>value[key]\<close>: \<open>None\<close> is \<^verbatim>\<open>undefined\<close>.\<close>

fun field :: "string \<Rightarrow> json \<Rightarrow> json option" where
  "field k (JObj fs) = map_of fs k"
| "field k _ = None"

text \<open>
  The schemas of \<^verbatim>\<open>EndpointConfig\<close>, with the TypeBox constructors the table uses.
  \<open>T_Number lo hi\<close> is \<^verbatim>\<open>T.Number({minimum, maximum})\<close> with either bound optional,
  \<open>T_Enum\<close> lists the values of the enumerated object, and a property of an object is
  required or \<^verbatim>\<open>T.Optional\<close>.
\<close>

datatype schema =
    T_Any
  | T_String
  | T_Number "number option" "number option"
  | T_Literal string
  | T_Enum "number list"
  | T_Union "schema list"
  | T_Array schema
  | T_Object "property list"
and property =
    Required string schema
  | Optional string schema

text \<open>
  \<^verbatim>\<open>Value.Check\<close> under TypeBox's default policy: an object is neither \<^verbatim>\<open>null\<close> nor
  an array, unknown properties are allowed, a required property is checked on
  \<^verbatim>\<open>value[key]\<close> and fails when the key is absent (no schema of the table accepts
  \<^verbatim>\<open>undefined\<close>, and for \<^verbatim>\<open>T.Any\<close> the key itself must be there), an optional property
  is checked when present, and a number is a finite one.
\<close>

fun check :: "schema \<Rightarrow> json \<Rightarrow> bool"
  and check_union :: "schema list \<Rightarrow> json \<Rightarrow> bool"
  and check_props :: "property list \<Rightarrow> json \<Rightarrow> bool"
  and check_prop :: "property \<Rightarrow> json \<Rightarrow> bool"
where
  "check T_Any v = True"
| "check T_String v = (case v of JStr _ \<Rightarrow> True | _ \<Rightarrow> False)"
| "check (T_Number lo hi) v =
     (case v of
        JNum x \<Rightarrow> (case lo of None \<Rightarrow> True | Some l \<Rightarrow> l \<le> x)
                \<and> (case hi of None \<Rightarrow> True | Some h \<Rightarrow> x \<le> h)
      | _ \<Rightarrow> False)"
| "check (T_Literal s) v = (v = JStr s)"
| "check (T_Enum xs) v = (case v of JNum x \<Rightarrow> x \<in> set xs | _ \<Rightarrow> False)"
| "check (T_Union ss) v = check_union ss v"
| "check (T_Array s) v = (case v of JArr xs \<Rightarrow> list_all (check s) xs | _ \<Rightarrow> False)"
| "check (T_Object ps) v = (case v of JObj _ \<Rightarrow> check_props ps v | _ \<Rightarrow> False)"
| "check_union [] v = False"
| "check_union (s # ss) v = (check s v \<or> check_union ss v)"
| "check_props [] v = True"
| "check_props (p # ps) v = (check_prop p v \<and> check_props ps v)"
| "check_prop (Required k s) v =
     (case field k v of None \<Rightarrow> False | Some x \<Rightarrow> check s x)"
| "check_prop (Optional k s) v =
     (case field k v of None \<Rightarrow> True | Some x \<Rightarrow> check s x)"

definition SearchType :: "number list" where
  "SearchType = [1, 2, 3, 4, 5, 6, 7, 8, 9, 10, 11, 12, 13, 14, 15, 16, 18, 42, 1001]"

fun requestSchema :: "endpoint \<Rightarrow> schema" where
  "requestSchema LIBRARY_SECTION_GET_ALL =
     T_Object [Required ''url'' (T_Object
       [Required ''key'' T_String,
        Required ''type'' (T_Enum SearchType),
        Optional ''sort'' (T_Array T_String),
        Optional ''limit'' (T_Number None None)])]"
| "requestSchema METADATA_GET_CHILDREN =
     T_Object [Required ''url'' (T_Object [Required ''key'' T_String])]"
| "requestSchema ENTITY_RATING_UPDATE =
     T_Object [Required ''url'' (T_Object
       [Required ''identifier'' (T_Union [T_Literal ''com.plexapp.plugins.library'']),
        Required ''key'' T_String,
        Required ''rating'' (T_Number (Some 0) (Some 10))])]"

fun responseSchema :: "endpoint \<Rightarrow> schema" where
  "responseSchema LIBRARY_SECTION_GET_ALL =
     T_Object [Required ''MediaContainer'' (T_Object
       [Required ''Metadata'' (T_Array (T_Object
          [Optional ''parentTitle'' T_String,
           Required ''ratingKey'' T_String,
           Required ''title'' T_String]))])]"
| "responseSchema METADATA_GET_CHILDREN =
     T_Object [Required ''MediaContainer'' (T_Object
       [Required ''Metadata'' (T_Array (T_Object
          [Optional ''parentTitle'' T_String,
           Required ''ratingKey'' T_String,
           Required ''title'' T_String,
           Required ''type'' (T_Union [T_Literal ''album'', T_Literal ''track'']),
           Optional ''userRating'' (T_Number None None)]))])]"
| "responseSchema ENTITY_RATING_UPDATE = T_Any"


section \<open>Sequencing effects\<close>

text \<open>
  An asynchronous function that is awaited either throws or returns, after the calls it
  made: \<open>'a io\<close> is that result with the calls in order. \<open>io_bind\<close> is
  \<^verbatim>\<open>await\<close> followed by the rest of the function, \<open>io_catch\<close> is
  \<^verbatim>\<open>try { ... } catch (error) { ... }\<close>, \<open>io_map\<close> is \<^verbatim>\<open>Array.prototype.map\<close> with a
  callback that may throw, \<open>io_for\<close> is \<^verbatim>\<open>for (const x of xs) { ... }\<close>.
\<close>

definition io_return :: "'a \<Rightarrow> 'a io" where
  "io_return x = (Inr x, [])"

definition io_throw :: "js_error \<Rightarrow> 'a io" where
  "io_throw e = (Inl e, [])"

definition io_emit :: "event \<Rightarrow> unit io" where
  "io_emit ev = (Inr (), [ev])"

definition io_lift :: "js_error + 'a \<Rightarrow> 'a io" where
  "io_lift r = (r, [])"

definition io_bind :: "'a io \<Rightarrow> ('a \<Rightarrow> 'b io) \<Rightarrow> 'b io" where
  "io_bind m f =
     (case m of
        (Inl e, tr) \<Rightarrow> (Inl e, tr)
      | (Inr x, tr) \<Rightarrow> (case f x of (r, tr') \<Rightarrow> (r, tr @ tr')))"

definition io_then :: "unit io \<Rightarrow> 'b io \<Rightarrow> 'b io" where
  "io_then m k = io_bind m (\<lambda>_. k)"

definition io_catch :: "'a io \<Rightarrow> (js_error \<Rightarrow> 'a io) \<Rightarrow> 'a io" where
  "io_catch m h =
     (case m of
        (Inl e, tr) \<Rightarrow> (case h e of (r, tr') \<Rightarrow> (r, tr @ tr'))
      | (Inr x, tr) \<Rightarrow> (Inr x, tr))"

fun io_map :: "('a \<Rightarrow> 'b io) \<Rightarrow> 'a list \<Rightarrow> 'b list io" where
  "io_map f [] = io_return []"
| "io_map f (x # xs) =
     io_bind (f x) (\<lambda>y. io_bind (io_map f xs) (\<lambda>ys. io_return (y # ys)))"

fun io_for :: "'a list \<Rightarrow> ('a \<Rightarrow> unit io) \<Rightarrow> unit io" where
  "io_for [] f = io_return ()"
| "io_for (x # xs) f = io_then (f x) (io_for xs f)"

section \<open>AppleMusicClient\<close>

record TrackFilters =
  albumName :: string
  artistName :: string
  trackName :: string

text \<open>
  \<^verbatim>\<open>runAppleScript\<close> with the script of \<^verbatim>\<open>getAppleMusicRating\<close>: the script holds the
  track name and the artist name, and the call is rejected (\<open>Inl\<close>) or gives the
  script's output.
\<close>

type_synonym bridge = "string \<Rightarrow> string \<Rightarrow> js_error + string"

text \<open>The body of the \<^verbatim>\<open>try\<close> block of \<^verbatim>\<open>getAppleMusicRating\<close>.\<close>

definition getAppleMusicRating_try :: "bridge \<Rightarrow> TrackFilters \<Rightarrow> number io" where
  "getAppleMusicRating_try runAppleScript filters =
     io_then (io_emit (RunAppleScript (trackName filters) (artistName filters)))
       (io_bind (io_lift (runAppleScript (trackName filters) (artistName filters)))
          (\<lambda>result.
             case parseInt (trim result) of
               None \<Rightarrow> io_return 0
             | Some rating \<Rightarrow> io_return (Math_round (rating / 10))))"

definition getAppleMusicRating :: "bridge \<Rightarrow> TrackFilters \<Rightarrow> number io" where
  "getAppleMusicRating runAppleScript filters =
     io_catch (getAppleMusicRating_try runAppleScript filters)
       (\<lambda>error.
          io_then (io_emit (LogError Err error ''failed to retrieve Apple Music rating''))
            (io_return 0))"

section \<open>PlexClient\<close>

datatype SectionRef = SectionByKey string | SectionByName string

datatype ArtistRef = ArtistByKey string | ArtistByName string SectionRef

datatype AlbumRef = AlbumByKey string | AlbumByName ArtistRef string

datatype TrackRef = TrackByKey string | TrackByName AlbumRef string

record ArtistEntry =
  artist_key :: string
  artist_name :: string

record AlbumEntry =
  album_key :: string
  album_name :: string
  album_artistName :: string

record TrackEntry =
  track_key :: string
  track_name :: string
  track_albumName :: string
  track_rating :: number

text \<open>
  The answer of the server as \<^verbatim>\<open>PlexClient.fetch\<close> reads it: \<^verbatim>\<open>response.ok\<close>, the
  \<^verbatim>\<open>Content-Length\<close> header when there is one, and what \<^verbatim>\<open>response.json()\<close> gives
  (\<open>None\<close> when the body is not JSON, as an empty body is not). The global
  \<^verbatim>\<open>fetch\<close>, with the base URL and the token of the client, is a function from the
  endpoint and the URL parameters that the template expands; it is rejected (\<open>Inl\<close>) when
  the server cannot be reached.
\<close>

record response =
  ok :: bool
  content_length :: "string option"
  json_body :: "json option"

type_synonym http = "endpoint \<Rightarrow> json \<Rightarrow> js_error + response"

definition getAlbumKey :: "AlbumRef \<Rightarrow> js_error + string" where
  "getAlbumKey ref =
     (case ref of AlbumByKey byKey \<Rightarrow> Inr byKey | _ \<Rightarrow> Inl (Error ''Not implemented''))"

definition getArtistKey :: "ArtistRef \<Rightarrow> js_error + string" where
  "getArtistKey ref =
     (case ref of ArtistByKey byKey \<Rightarrow> Inr byKey | _ \<Rightarrow> Inl (Error ''Not implemented''))"

definition getSectionKey :: "SectionRef \<Rightarrow> js_error + string" where
  "getSectionKey ref =
     (case ref of SectionByKey byKey \<Rightarrow> Inr byKey | _ \<Rightarrow> Inl (Error ''Not implemented''))"

definition getTrackKey :: "TrackRef \<Rightarrow> js_error + string" where
  "getTrackKey ref =
     (case ref of TrackByKey byKey \<Rightarrow> Inr byKey | _ \<Rightarrow> Inl (Error ''Not implemented''))"

text \<open>
  \<^verbatim>\<open>PlexClient.fetch\<close>. Every caller passes \<^verbatim>\<open>{ url: {...} }\<close>, so the function takes
  the URL parameters. \<^verbatim>\<open>Value.Assert\<close> throws TypeBox's \<open>AssertError\<close>.
\<close>

definition fetch :: "http \<Rightarrow> endpoint \<Rightarrow> json \<Rightarrow> json io" where
  "fetch http endpoint url =
     (if \<not> check (requestSchema endpoint) (JObj [(''url'', url)]) then io_throw AssertError
      else
        io_then (io_emit (Fetch endpoint url))
          (io_bind (io_lift (http endpoint url))
             (\<lambda>response.
                if \<not> ok response then
                  io_then (io_emit (Log Err ''fetch failed'')) (io_throw PlexFetchError)
                else
                  let contentLength =
                        parseInt (case content_length response of None \<Rightarrow> [] | Some v \<Rightarrow> v)
                  in io_bind
                       (if contentLength = Some 0 then io_return JNull
                        else case json_body response of
                               None \<Rightarrow> io_throw SyntaxError
                             | Some parsed \<Rightarrow> io_return parsed)
                       (\<lambda>body.
                          io_then (io_emit (Log Debug ''validating response''))
                            (if check (responseSchema endpoint) body then io_return body
                             else io_throw AssertError)))))"

text \<open>
  \<^verbatim>\<open>data.MediaContainer.Metadata\<close>: reading through \<^verbatim>\<open>null\<close> or \<^verbatim>\<open>undefined\<close>, or
  mapping over what is not an array, is a \<open>TypeError\<close>.
\<close>

definition Metadata :: "json \<Rightarrow> js_error + json list" where
  "Metadata data =
     (case field ''MediaContainer'' data of
        None \<Rightarrow> Inl TypeError
      | Some container \<Rightarrow>
          (case field ''Metadata'' container of
             Some (JArr items) \<Rightarrow> Inr items
           | _ \<Rightarrow> Inl TypeError))"

text \<open>
  The entries are typed from the response schema. A field that the schema makes a string is
  read as one; the branch for any other value is there to keep the function total, and
  \<^verbatim>\<open>Value.Assert\<close> has excluded it.
\<close>

fun string_of :: "json option \<Rightarrow> js_error + string" where
  "string_of (Some (JStr s)) = Inr s"
| "string_of _ = Inl TypeError"

text \<open>\<^verbatim>\<open>value ?? d\<close> for a value typed \<^verbatim>\<open>number | undefined\<close>.\<close>

fun number_or :: "json option \<Rightarrow> number \<Rightarrow> js_error + number" where
  "number_or None d = Inr d"
| "number_or (Some JNull) d = Inr d"
| "number_or (Some (JNum x)) d = Inr x"
| "number_or _ d = Inl TypeError"

definition transform_artist :: "json \<Rightarrow> ArtistEntry io" where
  "transform_artist artist =
     io_then (io_emit (Log Debug ''transforming artist''))
       (io_bind (io_lift (string_of (field ''ratingKey'' artist))) (\<lambda>k.
        io_bind (io_lift (string_of (field ''title'' artist))) (\<lambda>n.
        io_return \<lparr>artist_key = k, artist_name = n\<rparr>)))"

definition transform_album :: "json \<Rightarrow> AlbumEntry io" where
  "transform_album album =
     io_then (io_emit (Log Debug ''transforming album''))
       (case field ''parentTitle'' album of
          None \<Rightarrow> io_throw PlexResponseError
        | Some parentTitle \<Rightarrow>
            io_bind (io_lift (string_of (field ''ratingKey'' album))) (\<lambda>k.
            io_bind (io_lift (string_of (field ''title'' album))) (\<lambda>n.
            io_bind (io_lift (string_of (Some parentTitle))) (\<lambda>p.
            io_return \<lparr>album_key = k, album_name = n, album_artistName = p\<rparr>))))"

definition transform_track :: "json \<Rightarrow> TrackEntry io" where
  "transform_track track =
     io_then (io_emit (Log Debug ''transforming track''))
       (case field ''parentTitle'' track of
          None \<Rightarrow> io_throw PlexResponseError
        | Some parentTitle \<Rightarrow>
            io_bind (io_lift (string_of (field ''ratingKey'' track))) (\<lambda>k.
            io_bind (io_lift (string_of (field ''title'' track))) (\<lambda>n.
            io_bind (io_lift (string_of (Some parentTitle))) (\<lambda>p.
            io_bind (io_lift (number_or (field ''userRating'' track) 0)) (\<lambda>r.
            io_return
              \<lparr>track_key = k, track_name = n, track_albumName = p, track_rating = r\<rparr>)))))"

definition listArtists :: "http \<Rightarrow> SectionRef \<Rightarrow> ArtistEntry list io" where
  "listArtists http section =
     io_then (io_emit (Log Debug ''fetching artists''))
       (io_bind (io_lift (getSectionKey section)) (\<lambda>sectionKey.
        io_then (io_emit (Log Debug ''resolved section key''))
       (io_bind (fetch http LIBRARY_SECTION_GET_ALL
                   (JObj [(''key'', JStr sectionKey), (''type'', JNum 8), (''limit'', JNum 10)]))
          (\<lambda>data.
        io_bind (io_lift (Metadata data)) (\<lambda>items.
        io_then (io_emit (Log Debug ''fetched artist data''))
          (io_map transform_artist items))))))"

definition listAlbums :: "http \<Rightarrow> SectionRef \<Rightarrow> AlbumEntry list io" where
  "listAlbums http section =
     io_then (io_emit (Log Debug ''fetching albums''))
       (io_bind (io_lift (getSectionKey section)) (\<lambda>sectionKey.
        io_then (io_emit (Log Debug ''resolved section key''))
       (io_bind (fetch http LIBRARY_SECTION_GET_ALL
                   (JObj [(''key'', JStr sectionKey), (''type'', JNum 9)]))
          (\<lambda>data.
        io_bind (io_lift (Metadata data)) (\<lambda>items.
        io_then (io_emit (Log Debug ''fetched album data''))
          (io_map transform_album items))))))"

definition listAlbumTracks :: "http \<Rightarrow> AlbumRef \<Rightarrow> TrackEntry list io" where
  "listAlbumTracks http album =
     io_then (io_emit (Log Debug ''fetching tracks''))
       (io_bind (io_lift (getAlbumKey album)) (\<lambda>key.
        io_then (io_emit (Log Debug ''resolved album key''))
       (io_bind (fetch http METADATA_GET_CHILDREN (JObj [(''key'', JStr key)])) (\<lambda>data.
        io_bind (io_lift (Metadata data)) (\<lambda>items.
        io_then (io_emit (Log Debug ''fetched tracks''))
          (io_map transform_track items))))))"

definition listArtistAlbums :: "http \<Rightarrow> ArtistRef \<Rightarrow> AlbumEntry list io" where
  "listArtistAlbums http artist =
     io_then (io_emit (Log Debug ''fetching albums''))
       (io_bind (io_lift (getArtistKey artist)) (\<lambda>key.
        io_then (io_emit (Log Debug ''resolved artist key''))
       (io_bind (fetch http METADATA_GET_CHILDREN (JObj [(''key'', JStr key)])) (\<lambda>data.
        io_bind (io_lift (Metadata data)) (\<lambda>items.
        io_then (io_emit (Log Debug ''fetched album data''))
          (io_map transform_album items))))))"

definition setTrackRating :: "http \<Rightarrow> TrackRef \<Rightarrow> number \<Rightarrow> unit io" where
  "setTrackRating http track rating =
     io_bind (io_lift (getTrackKey track)) (\<lambda>key.
     io_bind (fetch http ENTITY_RATING_UPDATE
                (JObj [(''identifier'', JStr ''com.plexapp.plugins.library''),
                       (''key'', JStr key),
                       (''rating'', JNum rating)]))
       (\<lambda>_. io_return ()))"


section \<open>The sync engine\<close>

text \<open>
  Of \<^verbatim>\<open>RatesyncOptions\<close> the two flags; the token and the base URL are in the \<open>http\<close>
  function.
\<close>

record RatesyncOptions =
  dryRun :: bool
  overrideExisting :: bool

text \<open>
  \<^verbatim>\<open>plexClient.setTrackRating({...})\<close> as \<^verbatim>\<open>run\<close> calls it: with no \<^verbatim>\<open>await\<close>. The call
  returns a promise at once and \<^verbatim>\<open>run\<close> goes on, so here it is the event of the call
  and nothing else; what the promise does later is \<open>setTrackRating\<close> on the same
  arguments, see \<open>floating_promises\<close>.
\<close>

definition call_setTrackRating :: "string \<Rightarrow> number \<Rightarrow> unit io" where
  "call_setTrackRating key rating = io_emit (SetTrackRating key rating)"

text \<open>The body of the loop over the tracks of one album.\<close>

definition process_track ::
  "bridge \<Rightarrow> RatesyncOptions \<Rightarrow> AlbumEntry \<Rightarrow> TrackEntry \<Rightarrow> unit io" where
  "process_track runAppleScript options album track =
     io_then (io_emit (Log Trace ''initialized logger''))
       (let ourRating = track_rating track in
        if \<not> overrideExisting options \<and> ourRating > 0 then
          io_emit (Log Info ''skipping track with existing rating...'')
        else
          io_then (io_emit (Log Debug ''getting Apple Music rating...''))
            (io_bind
               (getAppleMusicRating runAppleScript
                  \<lparr>albumName = track_albumName track,
                   artistName = album_artistName album,
                   trackName = track_name track\<rparr>)
               (\<lambda>theirRating.
                  if theirRating = 0 then
                    io_emit (Log Info ''skipping unrated track'')
                  else if theirRating = ourRating then
                    io_emit (Log Info ''skipping track with same rating...'')
                  else if ourRating = 0 then
                    io_then (io_emit (Log Info ''setting rating...''))
                      (if \<not> dryRun options
                       then call_setTrackRating (track_key track) theirRating
                       else io_return ())
                  else if overrideExisting options then
                    io_then (io_emit (Log Warn ''overwriting rating...''))
                      (if \<not> dryRun options
                       then call_setTrackRating (track_key track) theirRating
                       else io_return ())
                  else io_throw (Error ''Unknown error''))))"

text \<open>The body of the loop over the albums.\<close>

definition process_album ::
  "http \<Rightarrow> bridge \<Rightarrow> RatesyncOptions \<Rightarrow> AlbumEntry \<Rightarrow> unit io" where
  "process_album http runAppleScript options album =
     (if album_name album = [] then io_emit (Log Warn ''missing album title'')
      else
        io_then (io_emit (Log Debug ''loading tracks list...''))
          (io_bind (listAlbumTracks http (AlbumByKey (album_key album)))
             (\<lambda>tracks. io_for tracks (process_track runAppleScript options album))))"

text \<open>The \<^verbatim>\<open>try\<close> block of \<^verbatim>\<open>run\<close>.\<close>

definition run_try :: "http \<Rightarrow> bridge \<Rightarrow> RatesyncOptions \<Rightarrow> unit io" where
  "run_try http runAppleScript options =
     io_then (io_emit (Log Trace ''initialized Apple Music client''))
    (io_then (io_emit (Log Trace ''initialized Plex API client''))
    (io_then (io_emit (Log Debug ''loading albums list...''))
    (io_bind (listAlbums http (SectionByKey ''3''))
       (\<lambda>albums. io_for albums (process_album http runAppleScript options)))))"

definition run :: "http \<Rightarrow> bridge \<Rightarrow> RatesyncOptions \<Rightarrow> unit io" where
  "run http runAppleScript options =
     io_then
       (if dryRun options then
          io_then (io_emit (Log Warn ''performing dry run, no changes will be made''))
            (io_emit (Sleep 2000))
        else io_return ())
    (io_then
       (if overrideExisting options then
          io_then (io_emit (Log Warn ''existing ratings will be overwritten''))
         (io_then (io_emit (Log Warn ''waiting for 5 seconds to allow user to cancel''))
            (io_emit (Sleep 5000)))
        else io_return ())
    (io_then
       (io_catch (run_try http runAppleScript options)
          (\<lambda>error. io_then (io_emit (LogError Fatal error [])) (io_throw error)))
       (io_emit (Log Info ''finished''))))"

text \<open>
  The promises that \<^verbatim>\<open>run\<close> left without \<^verbatim>\<open>await\<close>: for each call of
  \<^verbatim>\<open>setTrackRating\<close> in the trace, what that call does and how it settles. Nothing in
  \<^verbatim>\<open>run\<close> reads these results.
\<close>

fun floating_promises :: "http \<Rightarrow> event list \<Rightarrow> unit io list" where
  "floating_promises http [] = []"
| "floating_promises http (SetTrackRating key rating # evs) =
     setTrackRating http (TrackByKey key) rating # floating_promises http evs"
| "floating_promises http (_ # evs) = floating_promises http evs"


section \<open>The decision table of the specification\<close>

text \<open>
  The five rows of the table as the specification words them, in its order, for the flag
  \<open>overriding\<close>, the remote rating \<open>ourRating\<close> and the candidate \<open>theirRating\<close>:
  not overriding and \<open>ourRating > 0\<close>; \<open>theirRating = 0\<close>; \<open>theirRating = ourRating\<close>;
  \<open>ourRating = 0\<close>; overriding enabled.
\<close>

definition table_conditions :: "bool \<Rightarrow> number \<Rightarrow> number \<Rightarrow> bool list" where
  "table_conditions overriding ourRating theirRating =
     [\<not> overriding \<and> ourRating > 0,
      theirRating = 0,
      theirRating = ourRating,
      ourRating = 0,
      overriding]"

text \<open>Row \<open>i\<close> (from 0) applies when it is the first row whose condition holds.\<close>

definition row_applies :: "bool \<Rightarrow> number \<Rightarrow> number \<Rightarrow> nat \<Rightarrow> bool" where
  "row_applies overriding ourRating theirRating i \<longleftrightarrow>
     i < length (table_conditions overriding ourRating theirRating)
     \<and> table_conditions overriding ourRating theirRating ! i
     \<and> list_all (\<lambda>c. \<not> c) (take i (table_conditions overriding ourRating theirRating))"

text \<open>
  What the engine does for a row: the rows that skip log the reason, the rows that write
  log the action and, out of a dry run, call \<^verbatim>\<open>setTrackRating\<close> with the candidate.
\<close>

definition row_action :: "bool \<Rightarrow> string \<Rightarrow> number \<Rightarrow> nat \<Rightarrow> event list" where
  "row_action dry key theirRating i =
     (if i = 0 then [Log Info ''skipping track with existing rating...'']
      else if i = 1 then [Log Info ''skipping unrated track'']
      else if i = 2 then [Log Info ''skipping track with same rating...'']
      else if i = 3 then
        Log Info ''setting rating...'' # (if dry then [] else [SetTrackRating key theirRating])
      else
        Log Warn ''overwriting rating...'' # (if dry then [] else [SetTrackRating key theirRating]))"

fun is_write :: "event \<Rightarrow> bool" where
  "is_write (SetTrackRating _ _) = True"
| "is_write _ = False"

fun is_query :: "event \<Rightarrow> bool" where
  "is_query (RunAppleScript _ _) = True"
| "is_query _ = False"

fun is_log :: "event \<Rightarrow> bool" where
  "is_log (Log _ _) = True"
| "is_log (LogError _ _ _) = True"
| "is_log _ = False"

section \<open>Payloads and servers for the examples\<close>

definition container :: "json list \<Rightarrow> json" where
  "container items = JObj [(''MediaContainer'', JObj [(''Metadata'', JArr items)])]"

definition answer :: "json \<Rightarrow> js_error + response" where
  "answer body = Inr \<lparr>ok = True, content_length = None, json_body = Some body\<rparr>"

text \<open>
  One album, ``Abbey Road'' by The Beatles, with two tracks that have no rating on the
  server; the rate endpoint answers with a status that is not a success.
\<close>

definition abbey_road :: "json" where
  "abbey_road =
     JObj [(''ratingKey'', JStr ''1''), (''title'', JStr ''Abbey Road''),
           (''parentTitle'', JStr ''The Beatles'')]"

definition come_together :: "json" where
  "come_together =
     JObj [(''ratingKey'', JStr ''10''), (''title'', JStr ''Come Together''),
           (''type'', JStr ''track''), (''parentTitle'', JStr ''Abbey Road'')]"

definition something :: "json" where
  "something =
     JObj [(''ratingKey'', JStr ''11''), (''title'', JStr ''Something''),
           (''type'', JStr ''track''), (''parentTitle'', JStr ''Abbey Road'')]"

fun rate_failing_server :: http where
  "rate_failing_server LIBRARY_SECTION_GET_ALL url = answer (container [abbey_road])"
| "rate_failing_server METADATA_GET_CHILDREN url = answer (container [come_together, something])"
| "rate_failing_server ENTITY_RATING_UPDATE url =
     Inr \<lparr>ok = False, content_length = None, json_body = None\<rparr>"


text \<open>The same album and its first track as the client lists them, and a bridge with one answer.\<close>

definition abbey_road_entry :: AlbumEntry where
  "abbey_road_entry =
     \<lparr>album_key = ''1'', album_name = ''Abbey Road'', album_artistName = ''The Beatles''\<rparr>"

definition come_together_entry :: TrackEntry where
  "come_together_entry =
     \<lparr>track_key = ''10'', track_name = ''Come Together'', track_albumName = ''Abbey Road'',
      track_rating = 0\<rparr>"

definition come_together_filters :: TrackFilters where
  "come_together_filters =
     \<lparr>albumName = ''Abbey Road'', artistName = ''The Beatles'', trackName = ''Come Together''\<rparr>"

definition bridge_giving :: "string \<Rightarrow> bridge" where
  "bridge_giving output = (\<lambda>track artist. Inr output)"

definition bridge_failing :: bridge where
  "bridge_failing = (\<lambda>track artist. Inl ProcessError)"

text \<open>
  A server that answers every request with a success status, \<^verbatim>\<open>Content-Length: 0\<close> and
  an empty body.
\<close>

definition empty_body_server :: http where
  "empty_body_server =
     (\<lambda>endpoint url. Inr \<lparr>ok = True, content_length = Some ''0'', json_body = None\<rparr>)"

text \<open>An entry with no \<^verbatim>\<open>parentTitle\<close>, and a server that lists it after a complete entry.\<close>

definition orphan :: json where
  "orphan =
     JObj [(''ratingKey'', JStr ''2''), (''title'', JStr ''Untitled''), (''type'', JStr ''album'')]"

definition orphan_server :: http where
  "orphan_server = (\<lambda>endpoint url. answer (container [come_together, orphan]))"

text \<open>
  A track as the children listing carries it, from its key, title, parent title and, when
  the server holds one, its \<^verbatim>\<open>userRating\<close>.
\<close>

definition track_item :: "string \<times> string \<times> string \<times> number option \<Rightarrow> json" where
  "track_item =
     (\<lambda>(key, title, parentTitle, userRating).
        JObj ([(''ratingKey'', JStr key), (''title'', JStr title), (''type'', JStr ''track''),
               (''parentTitle'', JStr parentTitle)]
              @ (case userRating of None \<Rightarrow> [] | Some x \<Rightarrow> [(''userRating'', JNum x)])))"

definition track_entry :: "string \<times> string \<times> string \<times> number option \<Rightarrow> TrackEntry" where
  "track_entry =
     (\<lambda>(key, title, parentTitle, userRating).
        \<lparr>track_key = key, track_name = title, track_albumName = parentTitle,
         track_rating = (case userRating of None \<Rightarrow> 0 | Some x \<Rightarrow> x)\<rparr>)"

section \<open>The effect combinators\<close>

lemmas io_defs =
  io_return_def io_throw_def io_emit_def io_lift_def io_bind_def io_then_def io_catch_def

text \<open>A kind of event that no part of a computation emits is absent from the whole.\<close>

lemma quiet_return: "filter P (snd (io_return x)) = []"
  by (simp add: io_return_def)

lemma quiet_throw: "filter P (snd (io_throw e)) = []"
  by (simp add: io_throw_def)

lemma quiet_lift: "filter P (snd (io_lift r)) = []"
  by (simp add: io_lift_def)

lemma quiet_emit: "\<not> P ev \<Longrightarrow> filter P (snd (io_emit ev)) = []"
  by (simp add: io_emit_def)

lemma quiet_bind:
  assumes "filter P (snd m) = []" and "\<And>x. filter P (snd (f x)) = []"
  shows "filter P (snd (io_bind m f)) = []"
proof (cases m)
  case (Pair r tr)
  show ?thesis
  proof (cases r)
    case (Inl e)
    with Pair assms(1) show ?thesis by (simp add: io_bind_def)
  next
    case (Inr x)
    with Pair assms(1) assms(2) [of x] show ?thesis
      by (cases "f x") (simp add: io_bind_def)
  qed
qed

lemma quiet_then:
  "filter P (snd m) = [] \<Longrightarrow> filter P (snd k) = [] \<Longrightarrow> filter P (snd (io_then m k)) = []"
  by (simp add: io_then_def quiet_bind)

lemma quiet_catch:
  assumes "filter P (snd m) = []" and "\<And>e. filter P (snd (h e)) = []"
  shows "filter P (snd (io_catch m h)) = []"
proof (cases m)
  case (Pair r tr)
  show ?thesis
  proof (cases r)
    case (Inl e)
    with Pair assms(1) assms(2) [of e] show ?thesis
      by (cases "h e") (simp add: io_catch_def)
  next
    case (Inr x)
    with Pair assms(1) show ?thesis by (simp add: io_catch_def)
  qed
qed

lemma quiet_map:
  "(\<And>x. filter P (snd (f x)) = []) \<Longrightarrow> filter P (snd (io_map f xs)) = []"
  by (induction xs) (simp_all add: quiet_return quiet_bind)

lemma quiet_for:
  "(\<And>x. filter P (snd (f x)) = []) \<Longrightarrow> filter P (snd (io_for xs f)) = []"
  by (induction xs) (simp_all add: quiet_return quiet_then)

section \<open>The Local Rating Reader\<close>

lemma Math_round_nearest:
  "Math_round x \<in> \<int> \<and> x - 1 / 2 < Math_round x \<and> Math_round x \<le> x + 1 / 2"
  unfolding Math_round_def by (simp; linarith)

lemma Math_round_tenth: "Math_round (of_int n / 10) = of_int ((n + 5) div 10)"
proof -
  have "(of_int n :: rat) / 10 + 1 / 2 = of_int (n + 5) / of_int 10"
    by (simp add: field_simps)
  then have "\<lfloor>(of_int n :: rat) / 10 + 1 / 2\<rfloor> = (n + 5) div 10"
    by (simp only: floor_divide_of_int_eq)
  then show ?thesis
    by (simp add: Math_round_def)
qed

lemma getAppleMusicRating_cases:
  "getAppleMusicRating b f =
     (case b (trackName f) (artistName f) of
        Inl e \<Rightarrow> (Inr 0, [RunAppleScript (trackName f) (artistName f),
                           LogError Err e ''failed to retrieve Apple Music rating''])
      | Inr result \<Rightarrow>
          (case parseInt (trim result) of
             None \<Rightarrow> (Inr 0, [RunAppleScript (trackName f) (artistName f)])
           | Some rating \<Rightarrow>
               (Inr (Math_round (rating / 10)),
                [RunAppleScript (trackName f) (artistName f)])))"
  by (simp add: getAppleMusicRating_def getAppleMusicRating_try_def io_defs
      split: sum.splits option.splits)

lemma getAppleMusicRating_returns:
  "\<exists>v tr. getAppleMusicRating b f = (Inr v, RunAppleScript (trackName f) (artistName f) # tr)
     \<and> filter is_write tr = [] \<and> filter is_query tr = []"
  by (simp add: getAppleMusicRating_cases split: sum.splits option.splits)

text \<open>
  Claim C2, as amended. For every native rating that \<^verbatim>\<open>parseInt\<close> reads from the output
  of the bridge, \<^verbatim>\<open>getAppleMusicRating\<close> returns that rating divided by 10 and rounded to
  the nearest integer, a tie going up. The result is an integer, and for a native rating
  from 0 to 100 it lies from 0 to 10 (not from 0 to 5).
\<close>

theorem getAppleMusicRating_rounds_tenth:
  assumes "b (trackName f) (artistName f) = Inr result"
    and "parseInt (trim result) = Some rating"
  shows "fst (getAppleMusicRating b f) = Inr (Math_round (rating / 10))
     \<and> Math_round (rating / 10) \<in> \<int>
     \<and> rating / 10 - 1 / 2 < Math_round (rating / 10)
     \<and> Math_round (rating / 10) \<le> rating / 10 + 1 / 2
     \<and> (0 \<le> rating \<and> rating \<le> 100 \<longrightarrow>
          0 \<le> Math_round (rating / 10) \<and> Math_round (rating / 10) \<le> 10)"
proof -
  have "fst (getAppleMusicRating b f) = Inr (Math_round (rating / 10))"
    using assms by (simp add: getAppleMusicRating_cases)
  moreover have "0 \<le> rating \<and> rating \<le> 100 \<longrightarrow>
      0 \<le> Math_round (rating / 10) \<and> Math_round (rating / 10) \<le> 10"
    unfolding Math_round_def by (simp; linarith)
  ultimately show ?thesis
    using Math_round_nearest [of "rating / 10"] by simp
qed

theorem getAppleMusicRating_rounds_tenth_witness:
  "bridge_giving ''85'' (trackName come_together_filters) (artistName come_together_filters)
     = Inr ''85''
   \<and> parseInt (trim ''85'') = Some 85
   \<and> fst (getAppleMusicRating (bridge_giving ''85'') come_together_filters) = Inr 9
   \<and> (0::rat) \<le> 9 \<and> (9::rat) \<le> 10"
proof -
  have h1: "bridge_giving ''85'' (trackName come_together_filters)
      (artistName come_together_filters) = Inr ''85''"
    by (simp add: bridge_giving_def)
  have h2: "parseInt (trim ''85'') = Some 85"
    by code_simp
  have r: "Math_round (17 / 2) = 9"
    by code_simp
  show ?thesis
    using getAppleMusicRating_rounds_tenth
        [where b = "bridge_giving ''85''" and f = come_together_filters
           and result = "''85''" and rating = 85, OF h1 h2]
      h1 h2
    by (simp add: r)
qed

text \<open>
  Claim C2 as stated fails: the native rating 100, which the bridge gives for five stars,
  comes back as 10, above 5.
\<close>

theorem getAppleMusicRating_not_within_five:
  "parseInt (trim ''100'') = Some 100
   \<and> fst (getAppleMusicRating (bridge_giving ''100'') come_together_filters) = Inr 10
   \<and> \<not> (10::rat) \<le> 5"
  by code_simp

text \<open>
  Claim C7, as amended. \<^verbatim>\<open>getAppleMusicRating\<close> never throws: it always returns a number.
  When the bridge call is rejected, the error is caught, logged at error level and 0 is
  returned. When the output of the bridge does not start with an integer (no match, empty
  or non-numeric output), 0 is returned and nothing is logged.
\<close>

theorem getAppleMusicRating_never_throws:
  "(\<exists>v. fst (getAppleMusicRating b f) = Inr v)
   \<and> (b (trackName f) (artistName f) = Inl e \<longrightarrow>
        getAppleMusicRating b f =
          (Inr 0, [RunAppleScript (trackName f) (artistName f),
                   LogError Err e ''failed to retrieve Apple Music rating'']))
   \<and> (b (trackName f) (artistName f) = Inr result \<and> parseInt (trim result) = None \<longrightarrow>
        getAppleMusicRating b f = (Inr 0, [RunAppleScript (trackName f) (artistName f)]))"
  by (simp add: getAppleMusicRating_cases split: sum.splits option.splits)

theorem getAppleMusicRating_never_throws_witness:
  "bridge_failing (trackName come_together_filters) (artistName come_together_filters)
     = Inl ProcessError
   \<and> getAppleMusicRating bridge_failing come_together_filters =
       (Inr 0, [RunAppleScript ''Come Together'' ''The Beatles'',
                LogError Err ProcessError ''failed to retrieve Apple Music rating''])
   \<and> parseInt (trim ''missing value'') = None
   \<and> getAppleMusicRating (bridge_giving ''missing value'') come_together_filters =
       (Inr 0, [RunAppleScript ''Come Together'' ''The Beatles''])"
proof -
  have h1: "bridge_failing (trackName come_together_filters)
      (artistName come_together_filters) = Inl ProcessError"
    by (simp add: bridge_failing_def)
  have h2: "bridge_giving ''missing value'' (trackName come_together_filters)
      (artistName come_together_filters) = Inr ''missing value''"
    by (simp add: bridge_giving_def)
  have h3: "parseInt (trim ''missing value'') = None"
    by code_simp
  have n: "trackName come_together_filters = ''Come Together''
      \<and> artistName come_together_filters = ''The Beatles''"
    by (simp add: come_together_filters_def)
  show ?thesis
    using getAppleMusicRating_never_throws
        [where b = bridge_failing and f = come_together_filters and e = ProcessError]
      getAppleMusicRating_never_throws
        [where b = "bridge_giving ''missing value''" and f = come_together_filters
           and result = "''missing value''"]
      h1 h2 h3 n
    by simp
qed

text \<open>
  Claim C7 as stated fails on the logging: when the bridge finds no track its output is
  empty, the parse fails, and 0 is returned with no log entry at all.
\<close>

theorem getAppleMusicRating_unlogged_failure:
  "parseInt (trim []) = None
   \<and> getAppleMusicRating (bridge_giving []) come_together_filters =
       (Inr 0, [RunAppleScript ''Come Together'' ''The Beatles''])
   \<and> filter is_log (snd (getAppleMusicRating (bridge_giving []) come_together_filters)) = []"
  by code_simp


section \<open>The decision for one track\<close>

lemma row_applies_simps:
  "row_applies ov our their 0 \<longleftrightarrow> \<not> ov \<and> our > 0"
  "row_applies ov our their (Suc 0) \<longleftrightarrow> \<not> (\<not> ov \<and> our > 0) \<and> their = 0"
  "row_applies ov our their 2 \<longleftrightarrow> \<not> (\<not> ov \<and> our > 0) \<and> their \<noteq> 0 \<and> their = our"
  "row_applies ov our their 3 \<longleftrightarrow>
     \<not> (\<not> ov \<and> our > 0) \<and> their \<noteq> 0 \<and> their \<noteq> our \<and> our = 0"
  "row_applies ov our their 4 \<longleftrightarrow>
     \<not> (\<not> ov \<and> our > 0) \<and> their \<noteq> 0 \<and> their \<noteq> our \<and> our \<noteq> 0 \<and> ov"
  by (auto simp add: row_applies_def table_conditions_def eval_nat_numeral)

lemma row_cases:
  "row_applies ov our their i \<Longrightarrow> i = 0 \<or> i = Suc 0 \<or> i = 2 \<or> i = 3 \<or> i = 4"
  unfolding row_applies_def table_conditions_def by (simp; arith)

lemma table_total:
  assumes "0 \<le> our"
  shows "\<exists>i. row_applies ov our their i"
proof -
  have "row_applies ov our their 0 \<or> row_applies ov our their (Suc 0)
    \<or> row_applies ov our their 2 \<or> row_applies ov our their 3 \<or> row_applies ov our their 4"
    using assms unfolding row_applies_simps by auto
  then show ?thesis by blast
qed

lemma table_exclusive:
  "row_applies ov our their i \<Longrightarrow> row_applies ov our their j \<Longrightarrow> i = j"
  using row_cases [of ov our their i] row_cases [of ov our their j]
  by (auto simp add: row_applies_simps)

text \<open>The loop body, branch by branch, once the answer of the reader is named.\<close>

lemma process_track_cases:
  assumes "getAppleMusicRating b
             \<lparr>albumName = track_albumName track, artistName = album_artistName album,
              trackName = track_name track\<rparr> = (Inr their, tr)"
  shows "process_track b opts album track =
     (if \<not> overrideExisting opts \<and> track_rating track > 0 then
        (Inr (), [Log Trace ''initialized logger'',
                  Log Info ''skipping track with existing rating...''])
      else if their = 0 then
        (Inr (), Log Trace ''initialized logger'' # Log Debug ''getting Apple Music rating...''
                 # tr @ [Log Info ''skipping unrated track''])
      else if their = track_rating track then
        (Inr (), Log Trace ''initialized logger'' # Log Debug ''getting Apple Music rating...''
                 # tr @ [Log Info ''skipping track with same rating...''])
      else if track_rating track = 0 then
        (Inr (), Log Trace ''initialized logger'' # Log Debug ''getting Apple Music rating...''
                 # tr @ Log Info ''setting rating...''
                 # (if dryRun opts then [] else [SetTrackRating (track_key track) their]))
      else if overrideExisting opts then
        (Inr (), Log Trace ''initialized logger'' # Log Debug ''getting Apple Music rating...''
                 # tr @ Log Warn ''overwriting rating...''
                 # (if dryRun opts then [] else [SetTrackRating (track_key track) their]))
      else
        (Inl (Error ''Unknown error''),
         Log Trace ''initialized logger'' # Log Debug ''getting Apple Music rating...'' # tr))"
  using assms by (simp add: process_track_def io_defs Let_def call_setTrackRating_def)

lemma process_track_row:
  assumes "fst (getAppleMusicRating b
             \<lparr>albumName = track_albumName track, artistName = album_artistName album,
              trackName = track_name track\<rparr>) = Inr their"
    and "row_applies (overrideExisting opts) (track_rating track) their i"
  shows "\<exists>pre. process_track b opts album track =
           (Inr (), pre @ row_action (dryRun opts) (track_key track) their i)
         \<and> filter is_write pre = []"
proof -
  obtain tr where g: "getAppleMusicRating b
             \<lparr>albumName = track_albumName track, artistName = album_artistName album,
              trackName = track_name track\<rparr> = (Inr their, tr)"
    and w: "filter is_write tr = []"
    using assms(1) getAppleMusicRating_returns [of b "\<lparr>albumName = track_albumName track,
      artistName = album_artistName album, trackName = track_name track\<rparr>"] by auto
  from row_cases [OF assms(2)] show ?thesis
  proof (elim disjE)
    assume "i = 0"
    with assms(2) show ?thesis
      by (simp add: row_applies_simps process_track_cases [OF g] row_action_def)
  next
    assume "i = Suc 0"
    with assms(2) w show ?thesis
      by (simp add: row_applies_simps process_track_cases [OF g] row_action_def)
  next
    assume "i = 2"
    with assms(2) w show ?thesis
      by (simp add: row_applies_simps process_track_cases [OF g] row_action_def)
  next
    assume "i = 3"
    with assms(2) w show ?thesis
      by (simp add: row_applies_simps process_track_cases [OF g] row_action_def)
  next
    assume "i = 4"
    with assms(2) w show ?thesis
      by (simp add: row_applies_simps process_track_cases [OF g] row_action_def)
  qed
qed

text \<open>
  Claim C1. For a track whose remote rating is not negative and a candidate rating that is
  not negative, exactly one row of the table applies in the order of precedence, the loop
  body does what that row says (the events of the row end its trace, and nothing before
  them is a write), and it returns normally: the final \<^verbatim>\<open>throw\<close> is not reached.
\<close>

theorem decision_table_total_exclusive:
  assumes "0 \<le> track_rating track"
    and "fst (getAppleMusicRating b
           \<lparr>albumName = track_albumName track, artistName = album_artistName album,
            trackName = track_name track\<rparr>) = Inr theirRating"
    and "0 \<le> theirRating"
  shows "(\<exists>!i. row_applies (overrideExisting opts) (track_rating track) theirRating i)
     \<and> fst (process_track b opts album track) = Inr ()
     \<and> (\<forall>i. row_applies (overrideExisting opts) (track_rating track) theirRating i \<longrightarrow>
          (\<exists>pre. snd (process_track b opts album track) =
                   pre @ row_action (dryRun opts) (track_key track) theirRating i
                 \<and> filter is_write pre = []))"
proof -
  obtain i where i: "row_applies (overrideExisting opts) (track_rating track) theirRating i"
    using table_total [OF assms(1)] by blast
  then have "\<exists>!i. row_applies (overrideExisting opts) (track_rating track) theirRating i"
    using table_exclusive by blast
  moreover have "fst (process_track b opts album track) = Inr ()"
    using process_track_row [OF assms(2) i] by auto
  moreover have "\<exists>pre. snd (process_track b opts album track) =
                   pre @ row_action (dryRun opts) (track_key track) theirRating j
                 \<and> filter is_write pre = []"
    if "row_applies (overrideExisting opts) (track_rating track) theirRating j" for j
    using process_track_row [OF assms(2) that] by auto
  ultimately show ?thesis by blast
qed

theorem decision_table_total_exclusive_witness:
  "0 \<le> track_rating come_together_entry
   \<and> fst (getAppleMusicRating (bridge_giving ''80'')
        \<lparr>albumName = track_albumName come_together_entry,
         artistName = album_artistName abbey_road_entry,
         trackName = track_name come_together_entry\<rparr>) = Inr 8
   \<and> row_applies False (track_rating come_together_entry) 8 3
   \<and> fst (process_track (bridge_giving ''80'') \<lparr>dryRun = False, overrideExisting = False\<rparr>
        abbey_road_entry come_together_entry) = Inr ()
   \<and> (\<exists>pre. snd (process_track (bridge_giving ''80'')
                \<lparr>dryRun = False, overrideExisting = False\<rparr>
                abbey_road_entry come_together_entry) =
              pre @ [Log Info ''setting rating...'', SetTrackRating ''10'' 8]
            \<and> filter is_write pre = [])"
proof -
  have h1: "0 \<le> track_rating come_together_entry"
    by (simp add: come_together_entry_def)
  have h2: "fst (getAppleMusicRating (bridge_giving ''80'')
        \<lparr>albumName = track_albumName come_together_entry,
         artistName = album_artistName abbey_road_entry,
         trackName = track_name come_together_entry\<rparr>) = Inr 8"
    by code_simp
  have h3: "(0::rat) \<le> 8"
    by simp
  have r: "row_applies False (track_rating come_together_entry) 8 3"
    by (simp add: row_applies_simps come_together_entry_def)
  have a: "row_action False (track_key come_together_entry) 8 3 =
      [Log Info ''setting rating...'', SetTrackRating ''10'' 8]"
    by (simp add: row_action_def come_together_entry_def)
  show ?thesis
    using decision_table_total_exclusive
        [where opts = "\<lparr>dryRun = False, overrideExisting = False\<rparr>", OF h1 h2 h3]
      h1 h2 r a
    by auto
qed


section \<open>Writes and dry runs\<close>

lemma fetch_no_write: "filter is_write (snd (fetch http e url)) = []"
  unfolding fetch_def Let_def
  by (simp add: quiet_bind quiet_then quiet_emit quiet_lift quiet_return quiet_throw
      split: option.splits)

lemma transform_album_no_write: "filter is_write (snd (transform_album m)) = []"
  unfolding transform_album_def
  by (simp add: quiet_bind quiet_then quiet_emit quiet_lift quiet_return quiet_throw
      split: option.splits)

lemma transform_track_no_write: "filter is_write (snd (transform_track m)) = []"
  unfolding transform_track_def
  by (simp add: quiet_bind quiet_then quiet_emit quiet_lift quiet_return quiet_throw
      split: option.splits)

lemma listAlbums_no_write: "filter is_write (snd (listAlbums http s)) = []"
  unfolding listAlbums_def
  by (simp add: quiet_bind quiet_then quiet_emit quiet_lift quiet_map fetch_no_write
      transform_album_no_write)

lemma listAlbumTracks_no_write: "filter is_write (snd (listAlbumTracks http s)) = []"
  unfolding listAlbumTracks_def
  by (simp add: quiet_bind quiet_then quiet_emit quiet_lift quiet_map fetch_no_write
      transform_track_no_write)

lemma process_track_dry_no_write:
  assumes "dryRun opts"
  shows "filter is_write (snd (process_track b opts album track)) = []"
proof -
  obtain v tr where g: "getAppleMusicRating b
             \<lparr>albumName = track_albumName track, artistName = album_artistName album,
              trackName = track_name track\<rparr> =
               (Inr v, RunAppleScript (track_name track) (album_artistName album) # tr)"
    and w: "filter is_write tr = []"
    using getAppleMusicRating_returns [of b "\<lparr>albumName = track_albumName track,
      artistName = album_artistName album, trackName = track_name track\<rparr>"] by auto
  show ?thesis
    using w assms by (simp add: process_track_cases [OF g])
qed

lemma process_album_dry_no_write:
  assumes "dryRun opts"
  shows "filter is_write (snd (process_album http b opts album)) = []"
  unfolding process_album_def
  by (simp add: quiet_emit quiet_then quiet_bind quiet_for listAlbumTracks_no_write
      process_track_dry_no_write [OF assms])

lemma run_try_dry_no_write:
  assumes "dryRun opts"
  shows "filter is_write (snd (run_try http b opts)) = []"
  unfolding run_try_def
  by (simp add: quiet_emit quiet_then quiet_bind quiet_for listAlbums_no_write
      process_album_dry_no_write [OF assms])

lemma run_dry_no_write:
  assumes "dryRun opts"
  shows "filter is_write (snd (run http b opts)) = []"
  unfolding run_def
  by (simp add: quiet_emit quiet_then quiet_catch quiet_return quiet_throw
      run_try_dry_no_write [OF assms])

text \<open>
  Claim C5. For a visited track with candidate rating \<open>theirRating\<close>, the loop body calls
  \<^verbatim>\<open>setTrackRating\<close> exactly when dry-run mode is off and one of the two write rows
  applies, that is when the candidate is not 0, differs from the remote rating, and the
  remote rating is 0 or overriding is on; it calls it once, for this track, with
  \<open>theirRating\<close>. In dry-run mode the trace of the loop body is the trace out of dry-run
  mode without the call, so every decision is still logged, and a whole dry run calls
  \<^verbatim>\<open>setTrackRating\<close> never.
\<close>

theorem writes_exactly_on_write_rows:
  assumes "fst (getAppleMusicRating b
             \<lparr>albumName = track_albumName track, artistName = album_artistName album,
              trackName = track_name track\<rparr>) = Inr theirRating"
  shows "filter is_write (snd (process_track b opts album track)) =
           (if \<not> dryRun opts
               \<and> (row_applies (overrideExisting opts) (track_rating track) theirRating 3
                  \<or> row_applies (overrideExisting opts) (track_rating track) theirRating 4)
            then [SetTrackRating (track_key track) theirRating] else [])
     \<and> ((row_applies (overrideExisting opts) (track_rating track) theirRating 3
          \<or> row_applies (overrideExisting opts) (track_rating track) theirRating 4)
         \<longleftrightarrow> theirRating \<noteq> 0 \<and> theirRating \<noteq> track_rating track
             \<and> (track_rating track = 0 \<or> overrideExisting opts))
     \<and> snd (process_track b (opts\<lparr>dryRun := True\<rparr>) album track) =
           filter (\<lambda>ev. \<not> is_write ev)
             (snd (process_track b (opts\<lparr>dryRun := False\<rparr>) album track))
     \<and> (dryRun opts \<longrightarrow> filter is_write (snd (run http b opts)) = [])"
proof -
  obtain tr where g: "getAppleMusicRating b
             \<lparr>albumName = track_albumName track, artistName = album_artistName album,
              trackName = track_name track\<rparr> =
               (Inr theirRating, RunAppleScript (track_name track) (album_artistName album) # tr)"
    and w: "filter is_write tr = []"
    using assms getAppleMusicRating_returns [of b "\<lparr>albumName = track_albumName track,
      artistName = album_artistName album, trackName = track_name track\<rparr>"] by auto
  have nw: "filter (\<lambda>ev. \<not> is_write ev) tr = tr"
    using w by (simp add: filter_empty_conv)
  have 1: "filter is_write (snd (process_track b opts album track)) =
           (if \<not> dryRun opts
               \<and> (row_applies (overrideExisting opts) (track_rating track) theirRating 3
                  \<or> row_applies (overrideExisting opts) (track_rating track) theirRating 4)
            then [SetTrackRating (track_key track) theirRating] else [])"
    using w by (simp add: process_track_cases [OF g] row_applies_simps)
  have 2: "(row_applies (overrideExisting opts) (track_rating track) theirRating 3
          \<or> row_applies (overrideExisting opts) (track_rating track) theirRating 4)
         \<longleftrightarrow> theirRating \<noteq> 0 \<and> theirRating \<noteq> track_rating track
             \<and> (track_rating track = 0 \<or> overrideExisting opts)"
    by (auto simp add: row_applies_simps)
  have 3: "snd (process_track b (opts\<lparr>dryRun := True\<rparr>) album track) =
           filter (\<lambda>ev. \<not> is_write ev)
             (snd (process_track b (opts\<lparr>dryRun := False\<rparr>) album track))"
    using nw by (simp add: process_track_cases [OF g])
  have 4: "dryRun opts \<longrightarrow> filter is_write (snd (run http b opts)) = []"
    using run_dry_no_write by blast
  from 1 2 3 4 show ?thesis by blast
qed

theorem writes_exactly_on_write_rows_witness:
  "fst (getAppleMusicRating (bridge_giving ''80'')
        \<lparr>albumName = track_albumName come_together_entry,
         artistName = album_artistName abbey_road_entry,
         trackName = track_name come_together_entry\<rparr>) = Inr 8
   \<and> filter is_write (snd (process_track (bridge_giving ''80'')
        \<lparr>dryRun = False, overrideExisting = False\<rparr> abbey_road_entry come_together_entry)) =
       [SetTrackRating ''10'' 8]
   \<and> filter is_write (snd (process_track (bridge_giving ''80'')
        \<lparr>dryRun = True, overrideExisting = False\<rparr> abbey_road_entry come_together_entry)) = []
   \<and> filter is_write (snd (run rate_failing_server (bridge_giving ''80'')
        \<lparr>dryRun = True, overrideExisting = False\<rparr>)) = []"
proof -
  have h: "fst (getAppleMusicRating (bridge_giving ''80'')
        \<lparr>albumName = track_albumName come_together_entry,
         artistName = album_artistName abbey_road_entry,
         trackName = track_name come_together_entry\<rparr>) = Inr 8"
    by code_simp
  have r: "row_applies False (track_rating come_together_entry) 8 3"
    by (simp add: row_applies_simps come_together_entry_def)
  have k: "track_key come_together_entry = ''10''"
    by (simp add: come_together_entry_def)
  show ?thesis
    using writes_exactly_on_write_rows
        [where opts = "\<lparr>dryRun = False, overrideExisting = False\<rparr>", OF h]
      writes_exactly_on_write_rows
        [where opts = "\<lparr>dryRun = True, overrideExisting = False\<rparr>"
           and http = rate_failing_server, OF h]
      h r k
    by simp
qed

section \<open>When the reader is queried\<close>

text \<open>
  Claim C9, as amended. For every visited track the loop body first reads the remote
  rating and decides the first row of the table on it alone. Only when that row does not
  apply (overriding is on, or the remote rating is not positive) does it query the Local
  Rating Reader, once, for this track's name and the album's artist name, before it
  decides any other row; when the first row applies the reader is not queried.
\<close>

theorem query_after_first_row:
  "filter is_query (snd (process_track b opts album track)) =
     (if \<not> overrideExisting opts \<and> track_rating track > 0 then []
      else [RunAppleScript (track_name track) (album_artistName album)])
   \<and> take 3 (snd (process_track b opts album track)) =
     (if \<not> overrideExisting opts \<and> track_rating track > 0 then
        [Log Trace ''initialized logger'', Log Info ''skipping track with existing rating...'']
      else
        [Log Trace ''initialized logger'', Log Debug ''getting Apple Music rating...'',
         RunAppleScript (track_name track) (album_artistName album)])"
proof -
  obtain v tr where g: "getAppleMusicRating b
             \<lparr>albumName = track_albumName track, artistName = album_artistName album,
              trackName = track_name track\<rparr> =
               (Inr v, RunAppleScript (track_name track) (album_artistName album) # tr)"
    and q: "filter is_query tr = []"
    using getAppleMusicRating_returns [of b "\<lparr>albumName = track_albumName track,
      artistName = album_artistName album, trackName = track_name track\<rparr>"] by auto
  show ?thesis
    using q by (simp add: process_track_cases [OF g])
qed

text \<open>
  Claim C9 as stated fails: with overriding off, a track that the server already rates 3 is
  visited and skipped without any query to the reader.
\<close>

theorem rated_track_not_queried:
  "process_track (bridge_giving ''80'') \<lparr>dryRun = False, overrideExisting = False\<rparr>
     abbey_road_entry (come_together_entry\<lparr>track_rating := 3\<rparr>) =
     (Inr (), [Log Trace ''initialized logger'',
               Log Info ''skipping track with existing rating...''])
   \<and> filter is_query (snd (process_track (bridge_giving ''80'')
        \<lparr>dryRun = False, overrideExisting = False\<rparr>
        abbey_road_entry (come_together_entry\<lparr>track_rating := 3\<rparr>))) = []"
  by code_simp


section \<open>Requests and responses\<close>

lemma request_checks:
  "check (requestSchema LIBRARY_SECTION_GET_ALL)
     (JObj [(''url'', JObj [(''key'', JStr k), (''type'', JNum 9)])])"
  "check (requestSchema LIBRARY_SECTION_GET_ALL)
     (JObj [(''url'', JObj [(''key'', JStr k), (''type'', JNum 8), (''limit'', JNum 10)])])"
  "check (requestSchema METADATA_GET_CHILDREN) (JObj [(''url'', JObj [(''key'', JStr k)])])"
  "check (requestSchema ENTITY_RATING_UPDATE)
     (JObj [(''url'', JObj [(''identifier'', JStr ''com.plexapp.plugins.library''),
                            (''key'', JStr k), (''rating'', JNum r)])])
   \<longleftrightarrow> 0 \<le> r \<and> r \<le> 10"
  by (simp_all add: SearchType_def)

lemma fetch_cases:
  "fetch http e url =
     (if \<not> check (requestSchema e) (JObj [(''url'', url)]) then (Inl AssertError, [])
      else case http e url of
        Inl err \<Rightarrow> (Inl err, [Fetch e url])
      | Inr r \<Rightarrow>
          if \<not> ok r then (Inl PlexFetchError, [Fetch e url, Log Err ''fetch failed''])
          else if parseInt (case content_length r of None \<Rightarrow> [] | Some v \<Rightarrow> v) = Some 0 then
            (if check (responseSchema e) JNull then Inr JNull else Inl AssertError,
             [Fetch e url, Log Debug ''validating response''])
          else case json_body r of
            None \<Rightarrow> (Inl SyntaxError, [Fetch e url])
          | Some body \<Rightarrow>
              (if check (responseSchema e) body then Inr body else Inl AssertError,
               [Fetch e url, Log Debug ''validating response'']))"
  by (simp add: fetch_def io_defs Let_def split: sum.splits option.splits)

lemma fetch_Inr_check:
  "fst (fetch http e url) = Inr data \<Longrightarrow> check (responseSchema e) data"
  by (auto simp add: fetch_cases split: if_splits sum.splits option.splits)

lemma null_checks:
  "\<not> check (responseSchema LIBRARY_SECTION_GET_ALL) JNull"
  "\<not> check (responseSchema METADATA_GET_CHILDREN) JNull"
  "check (responseSchema ENTITY_RATING_UPDATE) JNull"
  by simp_all

text \<open>
  Claim C4, as amended. When the request is well-formed, the status is a success and the
  \<^verbatim>\<open>Content-Length\<close> header reads as 0, \<^verbatim>\<open>fetch\<close> takes the body to be \<^verbatim>\<open>null\<close> without
  parsing it, and then validates \<^verbatim>\<open>null\<close> against the response shape of the endpoint as
  it validates any body: the rate endpoint, whose shape accepts anything, returns
  \<^verbatim>\<open>null\<close>; the two listing endpoints reject \<^verbatim>\<open>null\<close> and \<^verbatim>\<open>fetch\<close> throws the
  assertion error.
\<close>

theorem zero_length_body_is_validated_null:
  assumes "check (requestSchema endpoint) (JObj [(''url'', url)])"
    and "http endpoint url = Inr response"
    and "ok response"
    and "content_length response = Some header"
    and "parseInt header = Some 0"
  shows "fetch http endpoint url =
      (if endpoint = ENTITY_RATING_UPDATE then Inr JNull else Inl AssertError,
       [Fetch endpoint url, Log Debug ''validating response''])"
  using assms by (cases endpoint) (simp_all add: fetch_cases)

theorem zero_length_body_is_validated_null_witness:
  "check (requestSchema ENTITY_RATING_UPDATE)
     (JObj [(''url'', JObj [(''identifier'', JStr ''com.plexapp.plugins.library''),
                            (''key'', JStr ''10''), (''rating'', JNum 8)])])
   \<and> parseInt ''0'' = Some 0
   \<and> fetch empty_body_server ENTITY_RATING_UPDATE
        (JObj [(''identifier'', JStr ''com.plexapp.plugins.library''),
               (''key'', JStr ''10''), (''rating'', JNum 8)]) =
       (Inr JNull,
        [Fetch ENTITY_RATING_UPDATE
           (JObj [(''identifier'', JStr ''com.plexapp.plugins.library''),
                  (''key'', JStr ''10''), (''rating'', JNum 8)]),
         Log Debug ''validating response''])"
proof -
  have h1: "check (requestSchema ENTITY_RATING_UPDATE)
     (JObj [(''url'', JObj [(''identifier'', JStr ''com.plexapp.plugins.library''),
                            (''key'', JStr ''10''), (''rating'', JNum 8)])])"
    by (simp add: request_checks)
  have h2: "empty_body_server ENTITY_RATING_UPDATE
        (JObj [(''identifier'', JStr ''com.plexapp.plugins.library''),
               (''key'', JStr ''10''), (''rating'', JNum 8)]) =
      Inr \<lparr>ok = True, content_length = Some ''0'', json_body = None\<rparr>"
    by (simp add: empty_body_server_def)
  have h3: "ok \<lparr>ok = True, content_length = Some ''0'', json_body = None\<rparr>"
    by simp
  have h4: "content_length \<lparr>ok = True, content_length = Some ''0'', json_body = None\<rparr>
      = Some ''0''"
    by simp
  have h5: "parseInt ''0'' = Some 0"
    by code_simp
  show ?thesis
    using zero_length_body_is_validated_null
        [where http = empty_body_server and endpoint = ENTITY_RATING_UPDATE
           and header = "''0''", OF h1 h2 h3 h4 h5]
      h1 h5
    by simp
qed

text \<open>
  Claim C4 as stated fails for the listing operations: on a success with
  \<^verbatim>\<open>Content-Length: 0\<close>, \<^verbatim>\<open>listAlbums\<close> does not return a null result, it throws the
  assertion error of the response validation.
\<close>

theorem listAlbums_empty_body_raises:
  "listAlbums empty_body_server (SectionByKey ''3'') =
     (Inl AssertError,
      [Log Debug ''fetching albums'', Log Debug ''resolved section key'',
       Fetch LIBRARY_SECTION_GET_ALL (JObj [(''key'', JStr ''3''), (''type'', JNum 9)]),
       Log Debug ''validating response''])"
  by code_simp

section \<open>Listings\<close>

lemma check_required:
  "check_prop (Required k s) v \<Longrightarrow> \<exists>x. field k v = Some x \<and> check s x"
  by (cases "field k v") simp_all

lemma check_optional:
  "check_prop (Optional k s) v \<Longrightarrow> field k v = None \<or> (\<exists>x. field k v = Some x \<and> check s x)"
  by (cases "field k v") simp_all

lemma check_string: "check T_String x \<Longrightarrow> \<exists>s. x = JStr s"
  by (cases x) simp_all

lemma check_number: "check (T_Number None None) x \<Longrightarrow> \<exists>r. x = JNum r"
  by (cases x) simp_all

lemma check_array: "check (T_Array s) x \<Longrightarrow> \<exists>xs. x = JArr xs \<and> list_all (check s) xs"
  by (cases x) simp_all

lemma check_object: "check (T_Object ps) v \<Longrightarrow> check_props ps v"
  by (cases v) simp_all

lemma required_string:
  "check_prop (Required k T_String) v \<Longrightarrow> \<exists>s. field k v = Some (JStr s)"
  using check_required [of k T_String v] check_string by fastforce

lemma optional_string:
  "check_prop (Optional k T_String) v \<Longrightarrow> field k v = None \<or> (\<exists>s. field k v = Some (JStr s))"
  using check_optional [of k T_String v] check_string by fastforce

lemma optional_number:
  "check_prop (Optional k (T_Number None None)) v \<Longrightarrow>
     field k v = None \<or> (\<exists>r. field k v = Some (JNum r))"
  using check_optional [of k "T_Number None None" v] check_number by fastforce

lemma container_items:
  assumes "check (T_Object [Required ''MediaContainer''
             (T_Object [Required ''Metadata'' (T_Array s)])]) data"
    and "Metadata data = Inr items"
  shows "list_all (check s) items"
proof -
  have "check_prop (Required ''MediaContainer''
          (T_Object [Required ''Metadata'' (T_Array s)])) data"
    using check_object [OF assms(1)] by simp
  then obtain mc where mc: "field ''MediaContainer'' data = Some mc"
    and c1: "check (T_Object [Required ''Metadata'' (T_Array s)]) mc"
    using check_required by blast
  have "check_prop (Required ''Metadata'' (T_Array s)) mc"
    using check_object [OF c1] by simp
  then obtain arr where arr: "field ''Metadata'' mc = Some arr" and c2: "check (T_Array s) arr"
    using check_required by blast
  obtain xs where xs: "arr = JArr xs" and all: "list_all (check s) xs"
    using check_array [OF c2] by blast
  have "Metadata data = Inr xs"
    using mc arr xs by (simp add: Metadata_def)
  with assms(2) all show ?thesis by simp
qed

lemma section_items:
  assumes "check (responseSchema LIBRARY_SECTION_GET_ALL) data" and "Metadata data = Inr items"
    and "m \<in> set items"
  shows "(\<exists>k. field ''ratingKey'' m = Some (JStr k)) \<and> (\<exists>t. field ''title'' m = Some (JStr t))
       \<and> (field ''parentTitle'' m = None \<or> (\<exists>p. field ''parentTitle'' m = Some (JStr p)))"
proof -
  have "list_all (check (T_Object
          [Optional ''parentTitle'' T_String,
           Required ''ratingKey'' T_String,
           Required ''title'' T_String])) items"
    using assms(1) by (intro container_items [OF _ assms(2)]) simp
  then have "check (T_Object
          [Optional ''parentTitle'' T_String,
           Required ''ratingKey'' T_String,
           Required ''title'' T_String]) m"
    using assms(3) by (simp add: list_all_iff)
  then have "check_prop (Optional ''parentTitle'' T_String) m
      \<and> check_prop (Required ''ratingKey'' T_String) m
      \<and> check_prop (Required ''title'' T_String) m"
    using check_object by fastforce
  then show ?thesis
    using required_string optional_string by blast
qed

lemma children_items:
  assumes "check (responseSchema METADATA_GET_CHILDREN) data" and "Metadata data = Inr items"
    and "m \<in> set items"
  shows "(\<exists>k. field ''ratingKey'' m = Some (JStr k)) \<and> (\<exists>t. field ''title'' m = Some (JStr t))
       \<and> (field ''parentTitle'' m = None \<or> (\<exists>p. field ''parentTitle'' m = Some (JStr p)))
       \<and> (field ''userRating'' m = None \<or> (\<exists>r. field ''userRating'' m = Some (JNum r)))"
proof -
  have "list_all (check (T_Object
          [Optional ''parentTitle'' T_String,
           Required ''ratingKey'' T_String,
           Required ''title'' T_String,
           Required ''type'' (T_Union [T_Literal ''album'', T_Literal ''track'']),
           Optional ''userRating'' (T_Number None None)])) items"
    using assms(1) by (intro container_items [OF _ assms(2)]) simp
  then have "check (T_Object
          [Optional ''parentTitle'' T_String,
           Required ''ratingKey'' T_String,
           Required ''title'' T_String,
           Required ''type'' (T_Union [T_Literal ''album'', T_Literal ''track'']),
           Optional ''userRating'' (T_Number None None)]) m"
    using assms(3) by (simp add: list_all_iff)
  then have "check_prop (Optional ''parentTitle'' T_String) m
      \<and> check_prop (Required ''ratingKey'' T_String) m
      \<and> check_prop (Required ''title'' T_String) m
      \<and> check_prop (Optional ''userRating'' (T_Number None None)) m"
    using check_object by fastforce
  then show ?thesis
    using required_string optional_string optional_number by blast
qed


lemma transform_album_fst:
  assumes "field ''ratingKey'' m = Some (JStr k)" and "field ''title'' m = Some (JStr t)"
  shows "field ''parentTitle'' m = None \<Longrightarrow> fst (transform_album m) = Inl PlexResponseError"
    and "field ''parentTitle'' m = Some (JStr p) \<Longrightarrow>
         fst (transform_album m) = Inr \<lparr>album_key = k, album_name = t, album_artistName = p\<rparr>"
  using assms by (simp_all add: transform_album_def io_defs)

lemma transform_track_fst:
  assumes "field ''ratingKey'' m = Some (JStr k)" and "field ''title'' m = Some (JStr t)"
  shows "field ''parentTitle'' m = None \<Longrightarrow> fst (transform_track m) = Inl PlexResponseError"
    and "field ''parentTitle'' m = Some (JStr p) \<Longrightarrow> field ''userRating'' m = None \<Longrightarrow>
         fst (transform_track m) =
           Inr \<lparr>track_key = k, track_name = t, track_albumName = p, track_rating = 0\<rparr>"
    and "field ''parentTitle'' m = Some (JStr p) \<Longrightarrow> field ''userRating'' m = Some (JNum r) \<Longrightarrow>
         fst (transform_track m) =
           Inr \<lparr>track_key = k, track_name = t, track_albumName = p, track_rating = r\<rparr>"
  using assms by (simp_all add: transform_track_def io_defs)

lemma fst_io_bind:
  "fst (io_bind m f) = (case fst m of Inl e \<Rightarrow> Inl e | Inr x \<Rightarrow> fst (f x))"
  by (simp add: io_bind_def split: prod.splits sum.splits)

lemma fst_io_then:
  "fst (io_then m k) = (case fst m of Inl e \<Rightarrow> Inl e | Inr x \<Rightarrow> fst k)"
  by (simp add: io_then_def fst_io_bind)

lemma fst_io_map_Cons:
  "fst (io_map f (x # xs)) =
     (case fst (f x) of
        Inl e \<Rightarrow> Inl e
      | Inr y \<Rightarrow> (case fst (io_map f xs) of Inl e \<Rightarrow> Inl e | Inr ys \<Rightarrow> Inr (y # ys)))"
  by (simp add: fst_io_bind io_return_def split: sum.splits)

lemma io_map_missing_parent:
  assumes "\<And>m. m \<in> set items \<Longrightarrow>
             (field ''parentTitle'' m = None \<longrightarrow> fst (f m) = Inl PlexResponseError)
             \<and> (field ''parentTitle'' m \<noteq> None \<longrightarrow> (\<exists>y. fst (f m) = Inr y))"
    and "\<exists>m\<in>set items. field ''parentTitle'' m = None"
  shows "fst (io_map f items) = Inl PlexResponseError"
  using assms
proof (induction items)
  case Nil
  then show ?case by simp
next
  case (Cons m items)
  show ?case
  proof (cases "field ''parentTitle'' m")
    case None
    then have "fst (f m) = Inl PlexResponseError"
      using Cons.prems(1) [of m] by simp
    then show ?thesis
      by (simp only: fst_io_map_Cons sum.case)
  next
    case (Some v)
    then obtain y where y: "fst (f m) = Inr y"
      using Cons.prems(1) [of m] by auto
    have "\<exists>m\<in>set items. field ''parentTitle'' m = None"
      using Cons.prems(2) Some by auto
    then have "fst (io_map f items) = Inl PlexResponseError"
      using Cons.IH Cons.prems(1) by simp
    with y show ?thesis
      by (simp only: fst_io_map_Cons sum.case)
  qed
qed

lemma fst_listAlbums:
  "fst (listAlbums http (SectionByKey k)) =
     (case fst (fetch http LIBRARY_SECTION_GET_ALL (JObj [(''key'', JStr k), (''type'', JNum 9)])) of
        Inl e \<Rightarrow> Inl e
      | Inr data \<Rightarrow>
          (case Metadata data of
             Inl e \<Rightarrow> Inl e
           | Inr items \<Rightarrow> fst (io_map transform_album items)))"
  by (simp add: listAlbums_def getSectionKey_def fst_io_bind fst_io_then io_emit_def io_lift_def
      split: sum.splits)

lemma fst_listArtistAlbums:
  "fst (listArtistAlbums http (ArtistByKey k)) =
     (case fst (fetch http METADATA_GET_CHILDREN (JObj [(''key'', JStr k)])) of
        Inl e \<Rightarrow> Inl e
      | Inr data \<Rightarrow>
          (case Metadata data of
             Inl e \<Rightarrow> Inl e
           | Inr items \<Rightarrow> fst (io_map transform_album items)))"
  by (simp add: listArtistAlbums_def getArtistKey_def fst_io_bind fst_io_then io_emit_def
      io_lift_def split: sum.splits)

lemma fst_listAlbumTracks:
  "fst (listAlbumTracks http (AlbumByKey k)) =
     (case fst (fetch http METADATA_GET_CHILDREN (JObj [(''key'', JStr k)])) of
        Inl e \<Rightarrow> Inl e
      | Inr data \<Rightarrow>
          (case Metadata data of
             Inl e \<Rightarrow> Inl e
           | Inr items \<Rightarrow> fst (io_map transform_track items)))"
  by (simp add: listAlbumTracks_def getAlbumKey_def fst_io_bind fst_io_then io_emit_def
      io_lift_def split: sum.splits)

lemma albums_of_section_missing_parent:
  assumes "check (responseSchema LIBRARY_SECTION_GET_ALL) data" and "Metadata data = Inr items"
    and "\<exists>m\<in>set items. field ''parentTitle'' m = None"
  shows "fst (io_map transform_album items) = Inl PlexResponseError"
proof (rule io_map_missing_parent [OF _ assms(3)])
  fix m assume "m \<in> set items"
  from section_items [OF assms(1) assms(2) this]
  show "(field ''parentTitle'' m = None \<longrightarrow> fst (transform_album m) = Inl PlexResponseError)
      \<and> (field ''parentTitle'' m \<noteq> None \<longrightarrow> (\<exists>y. fst (transform_album m) = Inr y))"
    using transform_album_fst by fastforce
qed

lemma albums_of_artist_missing_parent:
  assumes "check (responseSchema METADATA_GET_CHILDREN) data" and "Metadata data = Inr items"
    and "\<exists>m\<in>set items. field ''parentTitle'' m = None"
  shows "fst (io_map transform_album items) = Inl PlexResponseError"
proof (rule io_map_missing_parent [OF _ assms(3)])
  fix m assume "m \<in> set items"
  from children_items [OF assms(1) assms(2) this]
  show "(field ''parentTitle'' m = None \<longrightarrow> fst (transform_album m) = Inl PlexResponseError)
      \<and> (field ''parentTitle'' m \<noteq> None \<longrightarrow> (\<exists>y. fst (transform_album m) = Inr y))"
    using transform_album_fst by fastforce
qed

lemma tracks_missing_parent:
  assumes "check (responseSchema METADATA_GET_CHILDREN) data" and "Metadata data = Inr items"
    and "\<exists>m\<in>set items. field ''parentTitle'' m = None"
  shows "fst (io_map transform_track items) = Inl PlexResponseError"
proof (rule io_map_missing_parent [OF _ assms(3)])
  fix m assume "m \<in> set items"
  from children_items [OF assms(1) assms(2) this]
  show "(field ''parentTitle'' m = None \<longrightarrow> fst (transform_track m) = Inl PlexResponseError)
      \<and> (field ''parentTitle'' m \<noteq> None \<longrightarrow> (\<exists>y. fst (transform_track m) = Inr y))"
    using transform_track_fst by fastforce
qed

text \<open>
  Claim C6. When the listing request succeeds with a payload of the declared shape in which
  some entry has no \<^verbatim>\<open>parentTitle\<close>, \<^verbatim>\<open>listAlbums\<close>, \<^verbatim>\<open>listArtistAlbums\<close> and
  \<^verbatim>\<open>listAlbumTracks\<close> throw \<open>PlexResponseError\<close>: no entry is returned with a default in
  place of the parent name.
\<close>

theorem missing_parent_raises:
  "(fst (fetch http LIBRARY_SECTION_GET_ALL (JObj [(''key'', JStr k), (''type'', JNum 9)]))
      = Inr data
    \<and> Metadata data = Inr items \<and> (\<exists>m\<in>set items. field ''parentTitle'' m = None)
    \<longrightarrow> fst (listAlbums http (SectionByKey k)) = Inl PlexResponseError)
   \<and> (fst (fetch http METADATA_GET_CHILDREN (JObj [(''key'', JStr k)])) = Inr data
    \<and> Metadata data = Inr items \<and> (\<exists>m\<in>set items. field ''parentTitle'' m = None)
    \<longrightarrow> fst (listArtistAlbums http (ArtistByKey k)) = Inl PlexResponseError
      \<and> fst (listAlbumTracks http (AlbumByKey k)) = Inl PlexResponseError)"
proof (intro conjI impI)
  assume a: "fst (fetch http LIBRARY_SECTION_GET_ALL
      (JObj [(''key'', JStr k), (''type'', JNum 9)])) = Inr data
    \<and> Metadata data = Inr items \<and> (\<exists>m\<in>set items. field ''parentTitle'' m = None)"
  then have c: "check (responseSchema LIBRARY_SECTION_GET_ALL) data"
    using fetch_Inr_check by blast
  have "fst (io_map transform_album items) = Inl PlexResponseError"
    using albums_of_section_missing_parent [OF c] a by blast
  with a show "fst (listAlbums http (SectionByKey k)) = Inl PlexResponseError"
    by (simp add: fst_listAlbums)
next
  assume a: "fst (fetch http METADATA_GET_CHILDREN (JObj [(''key'', JStr k)])) = Inr data
    \<and> Metadata data = Inr items \<and> (\<exists>m\<in>set items. field ''parentTitle'' m = None)"
  then have c: "check (responseSchema METADATA_GET_CHILDREN) data"
    using fetch_Inr_check by blast
  have "fst (io_map transform_album items) = Inl PlexResponseError"
    using albums_of_artist_missing_parent [OF c] a by blast
  with a show "fst (listArtistAlbums http (ArtistByKey k)) = Inl PlexResponseError"
    by (simp add: fst_listArtistAlbums)
  have "fst (io_map transform_track items) = Inl PlexResponseError"
    using tracks_missing_parent [OF c] a by blast
  with a show "fst (listAlbumTracks http (AlbumByKey k)) = Inl PlexResponseError"
    by (simp add: fst_listAlbumTracks)
qed

theorem missing_parent_raises_witness:
  "fst (fetch orphan_server LIBRARY_SECTION_GET_ALL (JObj [(''key'', JStr ''3''), (''type'', JNum 9)]))
     = Inr (container [come_together, orphan])
   \<and> fst (fetch orphan_server METADATA_GET_CHILDREN (JObj [(''key'', JStr ''3'')]))
     = Inr (container [come_together, orphan])
   \<and> Metadata (container [come_together, orphan]) = Inr [come_together, orphan]
   \<and> field ''parentTitle'' orphan = None
   \<and> fst (listAlbums orphan_server (SectionByKey ''3'')) = Inl PlexResponseError
   \<and> fst (listArtistAlbums orphan_server (ArtistByKey ''3'')) = Inl PlexResponseError
   \<and> fst (listAlbumTracks orphan_server (AlbumByKey ''3'')) = Inl PlexResponseError"
proof -
  have h1: "fst (fetch orphan_server LIBRARY_SECTION_GET_ALL
      (JObj [(''key'', JStr ''3''), (''type'', JNum 9)])) = Inr (container [come_together, orphan])"
    by code_simp
  have h2: "fst (fetch orphan_server METADATA_GET_CHILDREN (JObj [(''key'', JStr ''3'')]))
     = Inr (container [come_together, orphan])"
    by code_simp
  have h3: "Metadata (container [come_together, orphan]) = Inr [come_together, orphan]"
    by code_simp
  have h4: "field ''parentTitle'' orphan = None"
    by code_simp
  show ?thesis
    using missing_parent_raises [where http = orphan_server and k = "''3''"
        and data = "container [come_together, orphan]" and items = "[come_together, orphan]"]
      h1 h2 h3 h4
    by simp
qed



section \<open>Reference resolution\<close>

lemma snd_io_then_emit: "snd (io_then (io_emit ev) k) = ev # snd k"
  by (simp add: io_defs split: prod.splits)

lemma io_bind_lift_Inr: "io_bind (io_lift (Inr x)) f = f x"
  by (simp add: io_defs split: prod.splits)

lemma snd_io_bind: "\<exists>rest. snd (io_bind m f) = snd m @ rest"
  by (simp add: io_bind_def split: prod.splits sum.splits)

lemma snd_fetch:
  "\<exists>rest. snd (fetch http e url) =
     (if check (requestSchema e) (JObj [(''url'', url)]) then Fetch e url # rest else [])"
  by (simp add: fetch_cases split: sum.splits option.splits)

lemma take_after_fetch:
  assumes "check (requestSchema e) (JObj [(''url'', url)])"
  shows "take (Suc 0) (snd (io_bind (fetch http e url) f)) = [Fetch e url]"
proof -
  obtain r1 where "snd (fetch http e url) = Fetch e url # r1"
    using snd_fetch [of http e url] assms by auto
  moreover obtain r2 where "snd (io_bind (fetch http e url) f) = snd (fetch http e url) @ r2"
    using snd_io_bind by blast
  ultimately show ?thesis by simp
qed

lemma take_no_fetch:
  assumes "\<not> check (requestSchema e) (JObj [(''url'', url)])"
  shows "snd (io_bind (fetch http e url) f) = []"
  using assms by (simp add: fetch_cases io_bind_def)

text \<open>
  Claim C8. Each of the four resolvers returns the literal key of a by-key reference and
  fails with the error ``Not implemented'' on a by-name reference. Each of the five
  operations given a by-name reference fails with that error after at most its first log
  entry, with no request sent; given a by-key reference, the first request it sends carries
  that key (for \<^verbatim>\<open>setTrackRating\<close>, when the rating passes the request validation; else
  no request is sent).
\<close>

theorem references_resolve_by_key_only:
  "getSectionKey (SectionByKey k) = Inr k
   \<and> getArtistKey (ArtistByKey k) = Inr k
   \<and> getAlbumKey (AlbumByKey k) = Inr k
   \<and> getTrackKey (TrackByKey k) = Inr k
   \<and> getSectionKey (SectionByName n) = Inl (Error ''Not implemented'')
   \<and> getArtistKey (ArtistByName n section) = Inl (Error ''Not implemented'')
   \<and> getAlbumKey (AlbumByName artist n) = Inl (Error ''Not implemented'')
   \<and> getTrackKey (TrackByName album n) = Inl (Error ''Not implemented'')
   \<and> listArtists http (SectionByName n) =
       (Inl (Error ''Not implemented''), [Log Debug ''fetching artists''])
   \<and> listAlbums http (SectionByName n) =
       (Inl (Error ''Not implemented''), [Log Debug ''fetching albums''])
   \<and> listArtistAlbums http (ArtistByName n section) =
       (Inl (Error ''Not implemented''), [Log Debug ''fetching albums''])
   \<and> listAlbumTracks http (AlbumByName artist n) =
       (Inl (Error ''Not implemented''), [Log Debug ''fetching tracks''])
   \<and> setTrackRating http (TrackByName album n) rating = (Inl (Error ''Not implemented''), [])
   \<and> take 3 (snd (listArtists http (SectionByKey k))) =
       [Log Debug ''fetching artists'', Log Debug ''resolved section key'',
        Fetch LIBRARY_SECTION_GET_ALL
          (JObj [(''key'', JStr k), (''type'', JNum 8), (''limit'', JNum 10)])]
   \<and> take 3 (snd (listAlbums http (SectionByKey k))) =
       [Log Debug ''fetching albums'', Log Debug ''resolved section key'',
        Fetch LIBRARY_SECTION_GET_ALL (JObj [(''key'', JStr k), (''type'', JNum 9)])]
   \<and> take 3 (snd (listArtistAlbums http (ArtistByKey k))) =
       [Log Debug ''fetching albums'', Log Debug ''resolved artist key'',
        Fetch METADATA_GET_CHILDREN (JObj [(''key'', JStr k)])]
   \<and> take 3 (snd (listAlbumTracks http (AlbumByKey k))) =
       [Log Debug ''fetching tracks'', Log Debug ''resolved album key'',
        Fetch METADATA_GET_CHILDREN (JObj [(''key'', JStr k)])]
   \<and> take 1 (snd (setTrackRating http (TrackByKey k) rating)) =
       (if 0 \<le> rating \<and> rating \<le> 10 then
          [Fetch ENTITY_RATING_UPDATE
             (JObj [(''identifier'', JStr ''com.plexapp.plugins.library''),
                    (''key'', JStr k), (''rating'', JNum rating)])]
        else [])"
proof -
  have keys: "getSectionKey (SectionByKey k) = Inr k
   \<and> getArtistKey (ArtistByKey k) = Inr k
   \<and> getAlbumKey (AlbumByKey k) = Inr k
   \<and> getTrackKey (TrackByKey k) = Inr k
   \<and> getSectionKey (SectionByName n) = Inl (Error ''Not implemented'')
   \<and> getArtistKey (ArtistByName n section) = Inl (Error ''Not implemented'')
   \<and> getAlbumKey (AlbumByName artist n) = Inl (Error ''Not implemented'')
   \<and> getTrackKey (TrackByName album n) = Inl (Error ''Not implemented'')"
    by (simp add: getSectionKey_def getArtistKey_def getAlbumKey_def getTrackKey_def)
  have names: "listArtists http (SectionByName n) =
       (Inl (Error ''Not implemented''), [Log Debug ''fetching artists''])
   \<and> listAlbums http (SectionByName n) =
       (Inl (Error ''Not implemented''), [Log Debug ''fetching albums''])
   \<and> listArtistAlbums http (ArtistByName n section) =
       (Inl (Error ''Not implemented''), [Log Debug ''fetching albums''])
   \<and> listAlbumTracks http (AlbumByName artist n) =
       (Inl (Error ''Not implemented''), [Log Debug ''fetching tracks''])
   \<and> setTrackRating http (TrackByName album n) rating = (Inl (Error ''Not implemented''), [])"
    by (simp add: listArtists_def listAlbums_def listArtistAlbums_def listAlbumTracks_def
        setTrackRating_def getSectionKey_def getArtistKey_def getAlbumKey_def getTrackKey_def
        io_defs)
  have a: "take 3 (snd (listArtists http (SectionByKey k))) =
       [Log Debug ''fetching artists'', Log Debug ''resolved section key'',
        Fetch LIBRARY_SECTION_GET_ALL
          (JObj [(''key'', JStr k), (''type'', JNum 8), (''limit'', JNum 10)])]"
    by (simp add: listArtists_def getSectionKey_def snd_io_then_emit io_bind_lift_Inr
        take_after_fetch [OF request_checks(2)] eval_nat_numeral)
  have b: "take 3 (snd (listAlbums http (SectionByKey k))) =
       [Log Debug ''fetching albums'', Log Debug ''resolved section key'',
        Fetch LIBRARY_SECTION_GET_ALL (JObj [(''key'', JStr k), (''type'', JNum 9)])]"
    by (simp add: listAlbums_def getSectionKey_def snd_io_then_emit io_bind_lift_Inr
        take_after_fetch [OF request_checks(1)] eval_nat_numeral)
  have c: "take 3 (snd (listArtistAlbums http (ArtistByKey k))) =
       [Log Debug ''fetching albums'', Log Debug ''resolved artist key'',
        Fetch METADATA_GET_CHILDREN (JObj [(''key'', JStr k)])]"
    by (simp add: listArtistAlbums_def getArtistKey_def snd_io_then_emit io_bind_lift_Inr
        take_after_fetch [OF request_checks(3)] eval_nat_numeral)
  have d: "take 3 (snd (listAlbumTracks http (AlbumByKey k))) =
       [Log Debug ''fetching tracks'', Log Debug ''resolved album key'',
        Fetch METADATA_GET_CHILDREN (JObj [(''key'', JStr k)])]"
    by (simp add: listAlbumTracks_def getAlbumKey_def snd_io_then_emit io_bind_lift_Inr
        take_after_fetch [OF request_checks(3)] eval_nat_numeral)
  have e: "take 1 (snd (setTrackRating http (TrackByKey k) rating)) =
       (if 0 \<le> rating \<and> rating \<le> 10 then
          [Fetch ENTITY_RATING_UPDATE
             (JObj [(''identifier'', JStr ''com.plexapp.plugins.library''),
                    (''key'', JStr k), (''rating'', JNum rating)])]
        else [])"
    using take_after_fetch [of ENTITY_RATING_UPDATE
             "JObj [(''identifier'', JStr ''com.plexapp.plugins.library''),
                    (''key'', JStr k), (''rating'', JNum rating)]" http "\<lambda>_. io_return ()"]
      take_no_fetch [of ENTITY_RATING_UPDATE
             "JObj [(''identifier'', JStr ''com.plexapp.plugins.library''),
                    (''key'', JStr k), (''rating'', JNum rating)]" http "\<lambda>_. io_return ()"]
    by (simp add: setTrackRating_def getTrackKey_def io_bind_lift_Inr request_checks)
  from keys names a b c d e show ?thesis
    by (intro conjI) (simp_all only:)
qed


section \<open>Ratings read from the server\<close>

lemma track_item_fields:
  "field ''ratingKey'' (track_item (k, t, p, r)) = Some (JStr k)"
  "field ''title'' (track_item (k, t, p, r)) = Some (JStr t)"
  "field ''parentTitle'' (track_item (k, t, p, r)) = Some (JStr p)"
  "field ''userRating'' (track_item (k, t, p, r)) =
     (case r of None \<Rightarrow> None | Some x \<Rightarrow> Some (JNum x))"
  by (simp_all add: track_item_def split: option.splits)

lemma track_item_checks:
  "check (T_Object
          [Optional ''parentTitle'' T_String,
           Required ''ratingKey'' T_String,
           Required ''title'' T_String,
           Required ''type'' (T_Union [T_Literal ''album'', T_Literal ''track'']),
           Optional ''userRating'' (T_Number None None)]) (track_item e)"
  by (cases e) (auto simp add: track_item_def split: option.splits)

lemma track_payload_checks:
  "check (responseSchema METADATA_GET_CHILDREN) (container (map track_item entries))"
proof -
  have "list_all (check (T_Object
          [Optional ''parentTitle'' T_String,
           Required ''ratingKey'' T_String,
           Required ''title'' T_String,
           Required ''type'' (T_Union [T_Literal ''album'', T_Literal ''track'']),
           Optional ''userRating'' (T_Number None None)])) (map track_item entries)"
    by (induction entries) (simp_all add: track_item_checks del: check.simps)
  then show ?thesis
    by (simp add: container_def)
qed

lemma transform_track_item: "fst (transform_track (track_item e)) = Inr (track_entry e)"
proof (cases e)
  case (fields k t p r)
  show ?thesis
  proof (cases r)
    case None
    with fields show ?thesis
      using transform_track_fst(2) [of "track_item (k, t, p, None)" k t p]
      by (simp add: track_item_fields track_entry_def)
  next
    case (Some x)
    with fields show ?thesis
      using transform_track_fst(3) [of "track_item (k, t, p, Some x)" k t p x]
      by (simp add: track_item_fields track_entry_def)
  qed
qed

lemma io_map_track_items:
  "fst (io_map transform_track (map track_item entries)) = Inr (map track_entry entries)"
proof (induction entries)
  case Nil
  show ?case by (simp add: io_return_def)
next
  case (Cons e entries)
  have "fst (io_map transform_track (track_item e # map track_item entries)) =
      Inr (track_entry e # map track_entry entries)"
    using Cons.IH by (simp only: fst_io_map_Cons transform_track_item sum.case)
  then show ?case by simp
qed

text \<open>
  Claim C10. A children listing whose tracks carry any numbers at all as \<^verbatim>\<open>userRating\<close>
  (negative, fractional, above 5 or above 10) passes the response validation, and
  \<^verbatim>\<open>listAlbumTracks\<close> returns each such number unchanged as the rating of the track; a
  track with no \<^verbatim>\<open>userRating\<close> gets the rating 0.
\<close>

theorem listAlbumTracks_rating_unchecked:
  "check (responseSchema METADATA_GET_CHILDREN) (container (map track_item entries))
   \<and> fst (listAlbumTracks (\<lambda>endpoint url. answer (container (map track_item entries)))
          (AlbumByKey k)) = Inr (map track_entry entries)
   \<and> track_rating (track_entry (key, title, parentTitle, Some r)) = r
   \<and> track_rating (track_entry (key, title, parentTitle, None)) = 0"
proof -
  have "fst (fetch (\<lambda>endpoint url. answer (container (map track_item entries)))
      METADATA_GET_CHILDREN (JObj [(''key'', JStr k)])) = Inr (container (map track_item entries))"
    by (simp add: fetch_cases answer_def track_payload_checks 
        request_checks(3) [simplified] parseInt_def del: responseSchema.simps)
  moreover have "Metadata (container (map track_item entries)) = Inr (map track_item entries)"
    by (simp add: Metadata_def container_def)
  ultimately have "fst (listAlbumTracks (\<lambda>endpoint url. answer (container (map track_item entries)))
          (AlbumByKey k)) = Inr (map track_entry entries)"
    by (simp add: fst_listAlbumTracks io_map_track_items)
  then show ?thesis
    by (simp add: track_payload_checks track_entry_def del: responseSchema.simps)
qed


section \<open>Failures during a pass\<close>

text \<open>
  A failure of a listing stops the pass: the loops run nothing after it, and \<^verbatim>\<open>run\<close> logs
  it at the fatal level and throws it again.
\<close>

lemma run_aborts_on_album_listing_failure:
  assumes "listAlbums http (SectionByKey ''3'') = (Inl e, tr)"
  shows "\<exists>pre. run http b opts = (Inl e, pre @ tr @ [LogError Fatal e []])"
  using assms by (simp add: run_def run_try_def io_defs)

lemma io_for_fail_fast:
  assumes "fst (f x) = Inl e" and "\<forall>y\<in>set ys. fst (f y) = Inr ()"
  shows "io_for (ys @ x # zs) f = (Inl e, concat (map (\<lambda>y. snd (f y)) (ys @ [x])))"
  using assms(2)
proof (induction ys)
  case Nil
  obtain tr where "f x = (Inl e, tr)"
    using assms(1) by (cases "f x") simp
  then show ?case by (simp add: io_defs)
next
  case (Cons y ys)
  obtain tr where "f y = (Inr (), tr)"
    using Cons.prems by (cases "f y") simp
  with Cons show ?case by (simp add: io_defs)
qed

lemma process_album_aborts_on_track_listing_failure:
  assumes "album_name album \<noteq> []"
    and "listAlbumTracks http (AlbumByKey (album_key album)) = (Inl e, tr)"
  shows "process_album http b opts album = (Inl e, Log Debug ''loading tracks list...'' # tr)"
  using assms by (simp add: process_album_def io_defs)

text \<open>
  Claim C3 at a failing write. The server lists one album with two unrated tracks and
  answers the rate request with a failure status; the bridge rates every track 80. The
  promise of the first \<^verbatim>\<open>setTrackRating\<close> call is rejected with \<open>PlexFetchError\<close>, but
  \<^verbatim>\<open>run\<close> does not await it: the second track is processed, nothing is logged at the
  fatal level, and the pass ends normally.
\<close>

theorem run_continues_after_failed_write:
  "run rate_failing_server (bridge_giving ''80'') \<lparr>dryRun = False, overrideExisting = False\<rparr> =
    (Inr (),
  [Log Trace ''initialized Apple Music client'',
   Log Trace ''initialized Plex API client'',
   Log Debug ''loading albums list...'', Log Debug ''fetching albums'',
   Log Debug ''resolved section key'',
   Fetch LIBRARY_SECTION_GET_ALL
    (JObj [(''key'', JStr ''3''), (''type'', JNum 9)]),
   Log Debug ''validating response'', Log Debug ''fetched album data'',
   Log Debug ''transforming album'', Log Debug ''loading tracks list...'',
   Log Debug ''fetching tracks'', Log Debug ''resolved album key'',
   Fetch METADATA_GET_CHILDREN (JObj [(''key'', JStr ''1'')]),
   Log Debug ''validating response'', Log Debug ''fetched tracks'',
   Log Debug ''transforming track'', Log Debug ''transforming track'',
   Log Trace ''initialized logger'',
   Log Debug ''getting Apple Music rating...'',
   RunAppleScript ''Come Together'' ''The Beatles'',
   Log Info ''setting rating...'', SetTrackRating ''10'' 8,
   Log Trace ''initialized logger'',
   Log Debug ''getting Apple Music rating...'',
   RunAppleScript ''Something'' ''The Beatles'',
   Log Info ''setting rating...'', SetTrackRating ''11'' 8,
   Log Info ''finished''])
  \<and> setTrackRating rate_failing_server (TrackByKey ''10'') 8 =
    (Inl PlexFetchError,
     [Fetch ENTITY_RATING_UPDATE
       (JObj [(''identifier'', JStr ''com.plexapp.plugins.library''),
              (''key'', JStr ''10''), (''rating'', JNum 8)]),
      Log Err ''fetch failed''])
  \<and> map fst (floating_promises rate_failing_server
        (snd (run rate_failing_server (bridge_giving ''80'')
                \<lparr>dryRun = False, overrideExisting = False\<rparr>))) =
     [Inl PlexFetchError, Inl PlexFetchError]"
  by code_simp


end
